theory Spec2Isabelle
  imports Complex_Main
begin

text \<open>
  The CPU sampling of the autoscaling subsystem: the detection of the control-group
  version, the readers of the control-group and \<open>/proc\<close> files, \<open>getCpuInfo\<close>, and the tick
  of the local event manager that turns a sample into a system-info snapshot.

  The functions of the sources are asynchronous. Here a call runs from its start to its
  end: every \<open>await\<close> is a step of the call, a rejected promise or a thrown error is the
  left summand of the result, and the module-level variables are a state that each function
  takes and returns. What the call observes of its surroundings is one value of type
  \<open>world\<close>, fixed for the duration of the call.
\<close>

section \<open>JavaScript numbers\<close>

text \<open>
  A JavaScript number is a finite value, one of the two infinities, or NaN. Finite values
  are taken as reals: rounding to 64-bit precision, overflow of a finite result to an
  infinity and the sign of zero are left out, so a zero divisor counts as \<open>+0\<close>.
  Every operation below follows the IEEE rules for the special values.
\<close>

datatype jsnum = Num real | PInf | NInf | NaN

fun js_neg :: "jsnum \<Rightarrow> jsnum" where
  "js_neg (Num a) = Num (- a)"
| "js_neg PInf = NInf"
| "js_neg NInf = PInf"
| "js_neg NaN = NaN"

fun js_add :: "jsnum \<Rightarrow> jsnum \<Rightarrow> jsnum" where
  "js_add NaN _ = NaN"
| "js_add _ NaN = NaN"
| "js_add (Num a) (Num b) = Num (a + b)"
| "js_add PInf NInf = NaN"
| "js_add NInf PInf = NaN"
| "js_add PInf _ = PInf"
| "js_add NInf _ = NInf"
| "js_add (Num a) PInf = PInf"
| "js_add (Num a) NInf = NInf"

definition js_sub :: "jsnum \<Rightarrow> jsnum \<Rightarrow> jsnum" where
  "js_sub x y = js_add x (js_neg y)"

text \<open>The sign of a number that is not NaN: \<open>1\<close>, \<open>0\<close> or \<open>-1\<close>.\<close>

fun js_sign :: "jsnum \<Rightarrow> real" where
  "js_sign (Num a) = sgn a"
| "js_sign PInf = 1"
| "js_sign NInf = - 1"
| "js_sign NaN = 0"

definition signed_inf :: "real \<Rightarrow> jsnum" where
  "signed_inf s = (if s < 0 then NInf else PInf)"

fun js_mul :: "jsnum \<Rightarrow> jsnum \<Rightarrow> jsnum" where
  "js_mul NaN _ = NaN"
| "js_mul _ NaN = NaN"
| "js_mul (Num a) (Num b) = Num (a * b)"
| "js_mul x y =
     (if js_sign x = 0 \<or> js_sign y = 0 then NaN else signed_inf (js_sign x * js_sign y))"

fun js_div :: "jsnum \<Rightarrow> jsnum \<Rightarrow> jsnum" where
  "js_div NaN _ = NaN"
| "js_div _ NaN = NaN"
| "js_div (Num a) (Num b) =
     (if b \<noteq> 0 then Num (a / b) else if a = 0 then NaN else signed_inf a)"
| "js_div (Num a) _ = Num 0"
| "js_div x (Num b) = signed_inf (js_sign x * (if b < 0 then - 1 else 1))"
| "js_div _ _ = NaN"

text \<open>\<open>x > y\<close>: false as soon as one side is NaN.\<close>

fun js_gt :: "jsnum \<Rightarrow> jsnum \<Rightarrow> bool" where
  "js_gt NaN _ = False"
| "js_gt _ NaN = False"
| "js_gt (Num a) (Num b) = (a > b)"
| "js_gt PInf y = (y \<noteq> PInf)"
| "js_gt NInf _ = False"
| "js_gt (Num a) PInf = False"
| "js_gt (Num a) NInf = True"

text \<open>Truthiness of a number in a condition: zero and NaN are falsy.\<close>

fun js_truthy :: "jsnum \<Rightarrow> bool" where
  "js_truthy (Num a) = (a \<noteq> 0)"
| "js_truthy NaN = False"
| "js_truthy _ = True"

section \<open>JavaScript strings\<close>

text \<open>
  File contents are strings of single-byte characters. The white space of \<open>trim\<close>, of the
  regular expression class \<open>\s\<close> and of the numeric conversions is tab, line feed, vertical
  tab, form feed, carriage return and space; the white space beyond ASCII is outside the
  character type used here.
\<close>

definition is_ws :: "char \<Rightarrow> bool" where
  "is_ws c = (c \<in> set [CHR 0x09, CHR 0x0A, CHR 0x0B, CHR 0x0C, CHR 0x0D, CHR 0x20])"

definition trimStart :: "string \<Rightarrow> string" where
  "trimStart s = dropWhile is_ws s"

definition trim :: "string \<Rightarrow> string" where
  "trim s = rev (dropWhile is_ws (rev (dropWhile is_ws s)))"

text \<open>
  \<open>s.split(/\s+/)\<close>: the pieces between maximal runs of white space. A leading or
  trailing run leaves an empty piece, and the empty string splits into one empty piece.
  The flag tells that the previous character belonged to a run.
\<close>

fun split_ws_from :: "bool \<Rightarrow> string \<Rightarrow> string list" where
  "split_ws_from b [] = [[]]"
| "split_ws_from b (c # cs) =
     (if is_ws c then (if b then split_ws_from True cs else [] # split_ws_from True cs)
      else (case split_ws_from False cs of
              t # ts \<Rightarrow> (c # t) # ts
            | [] \<Rightarrow> [[c]]))"

definition split_ws :: "string \<Rightarrow> string list" where
  "split_ws s = split_ws_from False s"

text \<open>\<open>s.split('\n')\<close>.\<close>

fun split_nl :: "string \<Rightarrow> string list" where
  "split_nl [] = [[]]"
| "split_nl (c # cs) =
     (if c = CHR 0x0A then [] # split_nl cs
      else (case split_nl cs of
              t # ts \<Rightarrow> (c # t) # ts
            | [] \<Rightarrow> [[c]]))"

definition startsWith :: "string \<Rightarrow> string \<Rightarrow> bool" where
  "startsWith s p = (take (length p) s = p)"

text \<open>\<open>parts[i]\<close>: \<open>None\<close> stands for \<open>undefined\<close>.\<close>

fun nth_opt :: "'a list \<Rightarrow> nat \<Rightarrow> 'a option" where
  "nth_opt [] i = None"
| "nth_opt (x # xs) 0 = Some x"
| "nth_opt (x # xs) (Suc i) = nth_opt xs i"

subsection \<open>Numeric conversions\<close>

definition digit_of :: "nat \<Rightarrow> char \<Rightarrow> nat option" where
  "digit_of radix c =
     (let k = (of_char c :: nat);
          v = (if 48 \<le> k \<and> k \<le> 57 then Some (k - 48)
               else if 97 \<le> k \<and> k \<le> 122 then Some (k - 87)
               else if 65 \<le> k \<and> k \<le> 90 then Some (k - 55)
               else None)
      in case v of
           Some d \<Rightarrow> (if d < radix then Some d else None)
         | None \<Rightarrow> None)"

definition is_digit :: "nat \<Rightarrow> char \<Rightarrow> bool" where
  "is_digit radix c = (digit_of radix c \<noteq> None)"

definition digits_val :: "nat \<Rightarrow> string \<Rightarrow> nat" where
  "digits_val radix ds =
     foldl (\<lambda>acc c. acc * radix + (case digit_of radix c of Some d \<Rightarrow> d | None \<Rightarrow> 0)) 0 ds"

text \<open>
  \<open>parseInt(str, 10)\<close>: leading white space is skipped, one sign is read, and the value
  is that of the longest prefix of decimal digits; without such a digit the result is NaN.
  \<open>None\<close> is \<open>undefined\<close>, whose string form has no digit.
\<close>

definition parseInt :: "string option \<Rightarrow> jsnum" where
  "parseInt arg =
     (case arg of
        None \<Rightarrow> NaN
      | Some str \<Rightarrow>
          (let s = trimStart str;
               neg = (take 1 s = ''-'');
               r = (if take 1 s = ''-'' \<or> take 1 s = ''+'' then drop 1 s else s);
               z = takeWhile (is_digit 10) r
           in if z = [] then NaN
              else Num ((if neg then - 1 else 1) * real (digits_val 10 z))))"

text \<open>
  \<open>Number(str)\<close>. After trimming, the empty string is \<open>0\<close>; a literal with prefix
  \<open>0x\<close>, \<open>0o\<close> or \<open>0b\<close> is read in that radix and takes no sign; otherwise the string
  must be, after an optional sign, \<open>Infinity\<close> or a decimal literal: digits with an
  optional fraction and an optional exponent, at least one digit before or after the point.
  Anything else is NaN.
\<close>

definition radix_literal :: "string \<Rightarrow> jsnum option" where
  "radix_literal t =
     (let p = take 2 t; ds = drop 2 t;
          radix = (if p = ''0x'' \<or> p = ''0X'' then Some (16::nat)
                   else if p = ''0o'' \<or> p = ''0O'' then Some 8
                   else if p = ''0b'' \<or> p = ''0B'' then Some 2
                   else None)
      in case radix of
           None \<Rightarrow> None
         | Some r \<Rightarrow>
             Some (if ds \<noteq> [] \<and> list_all (is_digit r) ds then Num (real (digits_val r ds))
                   else NaN))"

text \<open>The exponent part: \<open>e\<close> or \<open>E\<close>, an optional sign, at least one digit, then the end.\<close>

definition exponent_part :: "string \<Rightarrow> int option" where
  "exponent_part t =
     (if t = [] then Some 0
      else if take 1 t = ''e'' \<or> take 1 t = ''E'' then
        (let u = drop 1 t;
             neg = (take 1 u = ''-'');
             ds = (if take 1 u = ''-'' \<or> take 1 u = ''+'' then drop 1 u else u)
         in if ds \<noteq> [] \<and> list_all (is_digit 10) ds
            then Some ((if neg then - 1 else 1) * int (digits_val 10 ds))
            else None)
      else None)"

definition pow10 :: "int \<Rightarrow> real" where
  "pow10 e = (if 0 \<le> e then 10 ^ nat e else 1 / 10 ^ nat (- e))"

definition unsigned_decimal :: "string \<Rightarrow> jsnum" where
  "unsigned_decimal t =
     (if t = ''Infinity'' then PInf
      else
        (let ip = takeWhile (is_digit 10) t;
             r1 = dropWhile (is_digit 10) t;
             has_point = (take 1 r1 = ''.'');
             fp = (if has_point then takeWhile (is_digit 10) (drop 1 r1) else []);
             r2 = (if has_point then dropWhile (is_digit 10) (drop 1 r1) else r1)
         in if ip = [] \<and> fp = [] then NaN
            else (case exponent_part r2 of
                    None \<Rightarrow> NaN
                  | Some e \<Rightarrow>
                      Num ((real (digits_val 10 ip)
                            + real (digits_val 10 fp) / 10 ^ length fp) * pow10 e))))"

definition Number :: "string option \<Rightarrow> jsnum" where
  "Number arg =
     (case arg of
        None \<Rightarrow> NaN
      | Some str \<Rightarrow>
          (let t = trim str
           in if t = [] then Num 0
              else (case radix_literal t of
                      Some n \<Rightarrow> n
                    | None \<Rightarrow>
                        if take 1 t = ''-'' then js_neg (unsigned_decimal (drop 1 t))
                        else if take 1 t = ''+'' then unsigned_decimal (drop 1 t)
                        else unsigned_decimal t)))"

section \<open>The environment of a call\<close>

datatype cgroups_version = V1 | V2

text \<open>
  What a thrown error or a rejected promise carries: a failed \<open>readFile\<close> of a path,
  a failed \<open>access\<close> with its reason, the \<open>Error('no cpu line')\<close> of
  \<open>getSystemCpuUsage\<close>, or the rejection of one of the imported helpers.
\<close>

datatype error = ReadFileError string | AccessError string | NoCpuLine | Rejected string

text \<open>One entry of \<open>os.cpus()\<close>: the fields of \<open>cpu.times\<close>, in milliseconds.\<close>

record cpu_times =
  user :: nat
  nice :: nat
  sys :: nat
  idle :: nat
  irq :: nat

record mem_info =
  mainProcessBytes :: jsnum
  childProcessesBytes :: jsnum

text \<open>
  Everything a call observes outside the module: the platform and the environment
  variables of the process, the file system (\<open>access_failure\<close> gives the reason for
  which \<open>access\<close> of a path rejects, \<open>files\<close> the content \<open>readFile\<close> resolves to),
  the cores, the clock, and the outcomes of the helpers \<open>isContainerised\<close> (of
  \<open>./general\<close>) and \<open>getMemoryInfo\<close>, whose code is not part of the sources at hand
  and which are therefore taken as they come: a value or a rejection.
\<close>

record world =
  platform :: string
  env :: "string \<rightharpoonup> string"
  isContainerised :: "error + bool"
  access_failure :: "string \<rightharpoonup> error"
  files :: "string \<rightharpoonup> string"
  cpus :: "cpu_times list"
  getMemoryInfo :: "error + mem_info"
  now :: nat

record CpuSample =
  containerUsage :: jsnum
  systemUsage :: jsnum

datatype fs_call = Access string | ReadFile string

text \<open>
  The module-level variables \<open>_cgroupsVersion\<close> (\<open>None\<close> while it is undefined) and
  \<open>previousSample\<close>, together with the file-system calls issued so far, oldest first.
\<close>

record state =
  cgroupsVersion :: "cgroups_version option"
  previousSample :: CpuSample
  fs_calls :: "fs_call list"

definition initial_state :: state where
  "initial_state =
     \<lparr>cgroupsVersion = None,
      previousSample = \<lparr>containerUsage = Num 0, systemUsage = Num 0\<rparr>,
      fs_calls = []\<rparr>"

definition access :: "world \<Rightarrow> string \<Rightarrow> state \<Rightarrow> (error + unit) \<times> state" where
  "access w path s =
     (case access_failure w path of None \<Rightarrow> Inr () | Some e \<Rightarrow> Inl e,
      s\<lparr>fs_calls := fs_calls s @ [Access path]\<rparr>)"

definition readFile :: "world \<Rightarrow> string \<Rightarrow> state \<Rightarrow> (error + string) \<times> state" where
  "readFile w path s =
     (case files w path of None \<Rightarrow> Inl (ReadFileError path) | Some data \<Rightarrow> Inr data,
      s\<lparr>fs_calls := fs_calls s @ [ReadFile path]\<rparr>)"

section \<open>Control-group version detection\<close>

definition getCgroupsVersion :: "world \<Rightarrow> state \<Rightarrow> cgroups_version \<times> state" where
  "getCgroupsVersion w s =
     (case cgroupsVersion s of
        Some v \<Rightarrow> (v, s)
      | None \<Rightarrow>
          (let s1 = s\<lparr>cgroupsVersion := Some V1\<rparr>;
               (r, s2) = access w ''/sys/fs/cgroup/memory/'' s1
           in case r of
                Inr _ \<Rightarrow> (V1, s2)
              | Inl _ \<Rightarrow> (V2, s2\<lparr>cgroupsVersion := Some V2\<rparr>)))"

section \<open>CPU sampling\<close>

datatype cpu_file = STAT | QUOTA | PERIOD

fun CPU_FILE_PATHS :: "cpu_file \<Rightarrow> cgroups_version \<Rightarrow> string" where
  "CPU_FILE_PATHS STAT V1 = ''/sys/fs/cgroup/cpuacct/cpuacct.usage''"
| "CPU_FILE_PATHS STAT V2 = ''/sys/fs/cgroup/cpu.stat''"
| "CPU_FILE_PATHS QUOTA V1 = ''/sys/fs/cgroup/cpu/cpu.cfs_quota_us''"
| "CPU_FILE_PATHS QUOTA V2 = ''/sys/fs/cgroup/cpu.max''"
| "CPU_FILE_PATHS PERIOD V1 = ''/sys/fs/cgroup/cpu/cpu.cfs_period_us''"
| "CPU_FILE_PATHS PERIOD V2 = ''/sys/fs/cgroup/cpu.max''"

definition CLOCK_TICKS_PER_SECOND :: jsnum where
  "CLOCK_TICKS_PER_SECOND = Num 100"

definition NANOSECONDS_PER_SECOND :: jsnum where
  "NANOSECONDS_PER_SECOND = Num 1000000000"

record ticks =
  t_idle :: jsnum
  t_total :: jsnum

text \<open>The constant object \<open>previousTicks\<close>; no statement of the module assigns its fields.\<close>

definition previousTicks :: ticks where
  "previousTicks = \<lparr>t_idle = Num 0, t_total = Num 0\<rparr>"

text \<open>The inner \<open>reduce\<close> over \<open>Object.values(cpu.times)\<close>, which has no initial value.\<close>

definition sum_times :: "cpu_times \<Rightarrow> jsnum" where
  "sum_times c =
     js_add (js_add (js_add (js_add (Num (real (user c))) (Num (real (nice c))))
               (Num (real (sys c)))) (Num (real (idle c)))) (Num (real (irq c)))"

definition add_core :: "ticks \<Rightarrow> cpu_times \<Rightarrow> ticks" where
  "add_core acc c =
     \<lparr>t_idle = js_add (t_idle acc) (Num (real (idle c))),
      t_total = js_add (t_total acc) (sum_times c)\<rparr>"

definition getCurrentCpuTicks :: "cpu_times list \<Rightarrow> jsnum" where
  "getCurrentCpuTicks cpusCores =
     (let tk = foldl add_core \<lparr>t_idle = Num 0, t_total = Num 0\<rparr> cpusCores;
          idleTicksDelta = js_sub (t_idle tk) (t_idle previousTicks);
          totalTicksDelta = js_sub (t_total tk) (t_total previousTicks)
      in if js_truthy totalTicksDelta
         then js_sub (Num 1) (js_div idleTicksDelta totalTicksDelta)
         else Num 0)"

text \<open>The quota: \<open>None\<close> is the \<open>null\<close> of an unlimited quota.\<close>

definition getCpuQuota ::
  "cgroups_version \<Rightarrow> world \<Rightarrow> state \<Rightarrow> (error + jsnum option) \<times> state" where
  "getCpuQuota v w s =
     (if v = V1 then
        (case readFile w (CPU_FILE_PATHS QUOTA V1) s of
           (Inl e, s') \<Rightarrow> (Inl e, s')
         | (Inr quotaStr, s') \<Rightarrow>
             (let quota = parseInt (Some (trim quotaStr))
              in (Inr (if quota = Num (- 1) then None else Some quota), s')))
      else
        (case readFile w (CPU_FILE_PATHS QUOTA V2) s of
           (Inl e, s') \<Rightarrow> (Inl e, s')
         | (Inr maxStr, s') \<Rightarrow>
             (let parts = split_ws (trim maxStr)
              in if nth_opt parts 0 = Some ''max'' then (Inr None, s')
                 else (Inr (Some (parseInt (nth_opt parts 0))), s'))))"

definition getCpuPeriod ::
  "cgroups_version \<Rightarrow> world \<Rightarrow> state \<Rightarrow> (error + jsnum) \<times> state" where
  "getCpuPeriod v w s =
     (if v = V1 then
        (case readFile w (CPU_FILE_PATHS PERIOD V1) s of
           (Inl e, s') \<Rightarrow> (Inl e, s')
         | (Inr quotaStr, s') \<Rightarrow> (Inr (parseInt (Some (trim quotaStr))), s'))
      else
        (case readFile w (CPU_FILE_PATHS PERIOD V2) s of
           (Inl e, s') \<Rightarrow> (Inl e, s')
         | (Inr maxStr, s') \<Rightarrow>
             (let parts = split_ws (trim maxStr)
              in (Inr (parseInt (nth_opt parts 1)), s'))))"

text \<open>
  The loop of \<open>getContainerCpuUsage\<close> over the lines of \<open>cpu.stat\<close>: the first line whose
  first field is \<open>usage_usec\<close> sets \<open>usageUsec\<close> and ends the loop.
\<close>

fun scan_usage_usec :: "string list \<Rightarrow> jsnum \<Rightarrow> jsnum" where
  "scan_usage_usec [] usageUsec = usageUsec"
| "scan_usage_usec (line # lines) usageUsec =
     (let parts = split_ws (trim line)
      in if nth_opt parts 0 = Some ''usage_usec'' then Number (nth_opt parts 1)
         else scan_usage_usec lines usageUsec)"

definition getContainerCpuUsage ::
  "cgroups_version \<Rightarrow> world \<Rightarrow> state \<Rightarrow> (error + jsnum) \<times> state" where
  "getContainerCpuUsage v w s =
     (if v = V1 then
        (case readFile w (CPU_FILE_PATHS STAT V1) s of
           (Inl e, s') \<Rightarrow> (Inl e, s')
         | (Inr data, s') \<Rightarrow> (Inr (Number (Some (trim data))), s'))
      else
        (case readFile w (CPU_FILE_PATHS STAT V2) s of
           (Inl e, s') \<Rightarrow> (Inl e, s')
         | (Inr data, s') \<Rightarrow>
             (let usageUsec = scan_usage_usec (split_nl data) (Num 0)
              in (Inr (js_mul usageUsec (Num 1000)), s'))))"

text \<open>
  The loop of \<open>getSystemCpuUsage\<close> over the lines of \<open>/proc/stat\<close>: the first line that
  starts with \<open>cpu\<close> and a space gives the result; without one the function throws.
\<close>

definition cpu_line_usage :: "string \<Rightarrow> jsnum" where
  "cpu_line_usage line =
     (let parts = take 7 (drop 1 (split_ws line));
          totalTicks = foldl (\<lambda>t part. js_add t (Number (Some part))) (Num 0) parts
      in js_div (js_mul totalTicks NANOSECONDS_PER_SECOND) CLOCK_TICKS_PER_SECOND)"

fun scan_cpu_line :: "string list \<Rightarrow> error + jsnum" where
  "scan_cpu_line [] = Inl NoCpuLine"
| "scan_cpu_line (line # lines) =
     (if startsWith line ''cpu '' then Inr (cpu_line_usage line) else scan_cpu_line lines)"

definition getSystemCpuUsage :: "world \<Rightarrow> state \<Rightarrow> (error + jsnum) \<times> state" where
  "getSystemCpuUsage w s =
     (case readFile w ''/proc/stat'' s of
        (Inl e, s') \<Rightarrow> (Inl e, s')
      | (Inr statData, s') \<Rightarrow> (scan_cpu_line (split_nl statData), s'))"

text \<open>
  \<open>Promise.all\<close> starts both readers, so both files are read whatever the outcome of the
  first; the sample exists when both succeed. When both fail the error reported here is
  that of the container reader.
\<close>

definition sampleCpuUsage ::
  "cgroups_version \<Rightarrow> world \<Rightarrow> state \<Rightarrow> (error + CpuSample) \<times> state" where
  "sampleCpuUsage v w s =
     (let (c, s1) = getContainerCpuUsage v w s;
          (y, s2) = getSystemCpuUsage w s1
      in case c of
           Inl e \<Rightarrow> (Inl e, s2)
         | Inr cu \<Rightarrow>
             (case y of
                Inl e \<Rightarrow> (Inl e, s2)
              | Inr su \<Rightarrow> (Inr \<lparr>containerUsage = cu, systemUsage = su\<rparr>, s2)))"

definition isLambdaEnvironment :: "world \<Rightarrow> bool" where
  "isLambdaEnvironment w =
     (platform w = ''linux'' \<and>
      (case env w ''AWS_LAMBDA_FUNCTION_MEMORY_SIZE'' of
         None \<Rightarrow> False
       | Some x \<Rightarrow> x \<noteq> []))"

definition getCpuInfo :: "world \<Rightarrow> state \<Rightarrow> (error + jsnum) \<times> state" where
  "getCpuInfo w s =
     (if isLambdaEnvironment w then (Inr (getCurrentCpuTicks (cpus w)), s)
      else
        (case isContainerised w of
           Inl e \<Rightarrow> (Inl e, s)
         | Inr False \<Rightarrow> (Inr (getCurrentCpuTicks (cpus w)), s)
         | Inr True \<Rightarrow>
             (let (cgv, s1) = getCgroupsVersion w s
              in case getCpuQuota cgv w s1 of
                   (Inl e, s2) \<Rightarrow> (Inl e, s2)
                 | (Inr None, s2) \<Rightarrow> (Inr (getCurrentCpuTicks (cpus w)), s2)
                 | (Inr (Some quota), s2) \<Rightarrow>
                     (case getCpuPeriod cgv w s2 of
                        (Inl e, s3) \<Rightarrow> (Inl e, s3)
                      | (Inr period, s3) \<Rightarrow>
                          (let cpuAllowance = js_div quota period
                           in case sampleCpuUsage cgv w s3 of
                                (Inl e, s4) \<Rightarrow> (Inl e, s4)
                              | (Inr sample, s4) \<Rightarrow>
                                  (let containerDelta =
                                         js_sub (containerUsage sample)
                                           (containerUsage (previousSample s4));
                                       systemDelta =
                                         js_sub (systemUsage sample)
                                           (systemUsage (previousSample s4));
                                       s5 = s4\<lparr>previousSample := sample\<rparr>;
                                       numCpus = length (cpus w)
                                   in (Inr (js_div
                                              (js_mul
                                                 (js_mul (js_div containerDelta systemDelta)
                                                    (Num (real numCpus)))
                                                 (Num 100))
                                              cpuAllowance), s5)))))))"

section \<open>The local event manager\<close>

datatype jsval = VDate nat | VNum jsnum | VBool bool

type_synonym obj = "string \<rightharpoonup> jsval"

text \<open>What a tick does towards the outside, in order.\<close>

datatype action = LogException error string | Emit obj | IntervalCallback

definition createCpuInfo :: "jsnum \<Rightarrow> world \<Rightarrow> state \<Rightarrow> (obj \<times> action list) \<times> state" where
  "createCpuInfo maxUsedCpuRatio w s =
     (case getCpuInfo w s of
        (Inr usedCpuRatio, s') \<Rightarrow>
          (([''cpuCurrentUsage'' \<mapsto> VNum (js_mul usedCpuRatio (Num 100)),
             ''isCpuOverloaded'' \<mapsto> VBool (js_gt usedCpuRatio maxUsedCpuRatio)], []), s')
      | (Inl err, s') \<Rightarrow> ((Map.empty, [LogException err ''Cpu snapshot failed.'']), s'))"

definition createMemoryInfo :: "world \<Rightarrow> obj \<times> action list" where
  "createMemoryInfo w =
     (case getMemoryInfo w of
        Inr memInfo \<Rightarrow>
          ([''memCurrentBytes'' \<mapsto>
              VNum (js_add (mainProcessBytes memInfo) (childProcessesBytes memInfo))], [])
      | Inl err \<Rightarrow> (Map.empty, [LogException err ''Memory snapshot failed.'']))"

text \<open>The object literal: \<open>createdAt\<close> first, then the two spreads, the later one winning.\<close>

definition createSystemInfo :: "jsnum \<Rightarrow> world \<Rightarrow> state \<Rightarrow> (obj \<times> action list) \<times> state" where
  "createSystemInfo maxUsedCpuRatio w s =
     (let createdAt = VDate (now w);
          ((cpu, log1), s') = createCpuInfo maxUsedCpuRatio w s;
          (mem, log2) = createMemoryInfo w
      in (([''createdAt'' \<mapsto> createdAt] ++ cpu ++ mem, log1 @ log2), s'))"

definition emitSystemInfoEvent :: "jsnum \<Rightarrow> world \<Rightarrow> state \<Rightarrow> action list \<times> state" where
  "emitSystemInfoEvent maxUsedCpuRatio w s =
     (let ((info, logged), s') = createSystemInfo maxUsedCpuRatio w s
      in (logged @ [Emit info, IntervalCallback], s'))"

section \<open>Weighted average\<close>

text \<open>
  Modelled from the spec: \<open>weightedAvg\<close>, which the tests import from the utilities
  package and whose code is not among the sources. The specification gives it as the sum of
  \<open>value_i * weight_i\<close> over the sum of \<open>weight_i\<close>, and as NaN when the weight sum is zero;
  the index runs over the values, as the test \<open>weightedAvg([], [1])\<close> of the sources expects.
\<close>

definition weightedAvg :: "real list \<Rightarrow> real list \<Rightarrow> jsnum" where
  "weightedAvg arrValues arrWeights =
     (let pairs = zip arrValues arrWeights;
          weightSum = (\<Sum>(v, wt)\<leftarrow>pairs. wt)
      in if weightSum = 0 then NaN
         else Num ((\<Sum>(v, wt)\<leftarrow>pairs. v * wt) / weightSum))"

section \<open>Consecutive calls\<close>

text \<open>The counters of the cores as \<open>os.cpus()\<close> reports them, summed since boot.\<close>

definition idle_sum :: "cpu_times list \<Rightarrow> nat" where
  "idle_sum cs = (\<Sum>c\<leftarrow>cs. idle c)"

definition total_sum :: "cpu_times list \<Rightarrow> nat" where
  "total_sum cs = (\<Sum>c\<leftarrow>cs. user c + nice c + sys c + idle c + irq c)"

text \<open>
  The call at \<open>w\<close> from \<open>s\<close> goes through the branch of a container with a limited quota
  and returns a value.
\<close>

definition samples :: "world \<Rightarrow> state \<Rightarrow> bool" where
  "samples w s =
     (\<not> isLambdaEnvironment w \<and> isContainerised w = Inr True \<and>
      (let (cgv, s1) = getCgroupsVersion w s
       in case fst (getCpuQuota cgv w s1) of
            Inr (Some q) \<Rightarrow> True
          | _ \<Rightarrow> False) \<and>
      (case fst (getCpuInfo w s) of Inr u \<Rightarrow> True | Inl e \<Rightarrow> False))"

text \<open>Consecutive calls, one for each environment of the list, and the state they leave.\<close>

fun run :: "world list \<Rightarrow> state \<Rightarrow> state" where
  "run [] s = s"
| "run (w # ws) s = run ws (snd (getCpuInfo w s))"

text \<open>No call of the run is one that \<open>samples\<close>.\<close>

fun none_samples :: "world list \<Rightarrow> state \<Rightarrow> bool" where
  "none_samples [] s = True"
| "none_samples (w # ws) s = (\<not> samples w s \<and> none_samples ws (snd (getCpuInfo w s)))"

section \<open>Sample environments\<close>

text \<open>Concrete hosts on which the functions are evaluated below.\<close>

definition file_of_lines :: "string list \<Rightarrow> string" where
  "file_of_lines ls = concat (map (\<lambda>l. l @ [CHR 0x0A]) ls)"

definition core :: "nat \<Rightarrow> nat \<Rightarrow> cpu_times" where
  "core busy idl = \<lparr>user = busy, nice = 0, sys = 0, idle = idl, irq = 0\<rparr>"

text \<open>A Linux host of four cores outside any container.\<close>

definition bare_metal :: world where
  "bare_metal =
     \<lparr>platform = ''linux'', env = Map.empty, isContainerised = Inr False,
      access_failure = Map.empty, files = Map.empty,
      cpus = [core 50 50, core 50 50, core 50 50, core 50 50],
      getMemoryInfo = Inr \<lparr>mainProcessBytes = Num 1000, childProcessesBytes = Num 24\<rparr>,
      now = 1700000000000\<rparr>"

definition lambda_host :: world where
  "lambda_host = bare_metal\<lparr>env := [''AWS_LAMBDA_FUNCTION_MEMORY_SIZE'' \<mapsto> ''512'']\<rparr>"

text \<open>
  A container under control groups V1, given the contents of the quota, period and usage
  files and the aggregate line of \<open>/proc/stat\<close>.
\<close>

definition cgroup_v1_host :: "string \<Rightarrow> string \<Rightarrow> string \<Rightarrow> string \<Rightarrow> world" where
  "cgroup_v1_host quota period usage stat =
     bare_metal\<lparr>isContainerised := Inr True,
       files := map_of
         [(''/sys/fs/cgroup/cpu/cpu.cfs_quota_us'', file_of_lines [quota]),
          (''/sys/fs/cgroup/cpu/cpu.cfs_period_us'', file_of_lines [period]),
          (''/sys/fs/cgroup/cpuacct/cpuacct.usage'', file_of_lines [usage]),
          (''/proc/stat'', file_of_lines [stat, ''cpu0 25 0 25 50 0 0 0 0 0 0''])]\<rparr>"

text \<open>
  A container under control groups V2: the V1 memory path is missing; given the content of
  \<open>cpu.max\<close>, the lines of \<open>cpu.stat\<close> and the lines of \<open>/proc/stat\<close>.
\<close>

definition cgroup_v2_host :: "string \<Rightarrow> string list \<Rightarrow> string list \<Rightarrow> world" where
  "cgroup_v2_host cpu_max cpu_stat stat =
     bare_metal\<lparr>isContainerised := Inr True,
       access_failure := [''/sys/fs/cgroup/memory/'' \<mapsto> AccessError ''ENOENT''],
       files := map_of
         [(''/sys/fs/cgroup/cpu.max'', file_of_lines [cpu_max]),
          (''/sys/fs/cgroup/cpu.stat'', file_of_lines cpu_stat),
          (''/proc/stat'', file_of_lines stat)]\<rparr>"

text \<open>
  Three observations of one V1 container with a quota of two cores on the four-core host.
  Between \<open>tick_a\<close> and \<open>tick_b\<close> the host advances by 400 clock ticks, one second on
  each of its four cores, and the container consumes two seconds of CPU time, all it is
  entitled to; between \<open>tick_a\<close> and \<open>tick_half\<close> it consumes one second, half of it.
\<close>

definition tick_a :: world where
  "tick_a =
     cgroup_v1_host ''200000'' ''100000'' ''1000000000'' ''cpu  100 0 100 200 0 0 0 0 0 0''"

definition tick_b :: world where
  "tick_b =
     cgroup_v1_host ''200000'' ''100000'' ''3000000000'' ''cpu  300 0 100 400 0 0 0 0 0 0''"

definition tick_half :: world where
  "tick_half =
     cgroup_v1_host ''200000'' ''100000'' ''2000000000'' ''cpu  200 0 100 500 0 0 0 0 0 0''"

text \<open>The state that the call at \<open>tick_a\<close> leaves when it starts from the initial one.\<close>

definition after_tick_a :: state where
  "after_tick_a =
     \<lparr>cgroupsVersion = Some V1,
      previousSample = \<lparr>containerUsage = Num 1000000000, systemUsage = Num 4000000000\<rparr>,
      fs_calls =
        [Access ''/sys/fs/cgroup/memory/'',
         ReadFile ''/sys/fs/cgroup/cpu/cpu.cfs_quota_us'',
         ReadFile ''/sys/fs/cgroup/cpu/cpu.cfs_period_us'',
         ReadFile ''/sys/fs/cgroup/cpuacct/cpuacct.usage'',
         ReadFile ''/proc/stat'']\<rparr>"

text \<open>Containers without a limit: \<open>max\<close> under V2, \<open>-1\<close> under V1.\<close>

definition unlimited_v2 :: world where
  "unlimited_v2 =
     cgroup_v2_host ''max 100000'' [''usage_usec 5000000'', ''user_usec 4000000'']
       [''cpu  100 0 100 200 0 0 0 0 0 0'']"

definition unlimited_v1 :: world where
  "unlimited_v1 =
     cgroup_v1_host ''-1'' ''100000'' ''1000000000'' ''cpu  100 0 100 200 0 0 0 0 0 0''"

text \<open>
  A one-core host at two moments: busy for 50 ms and idle for 50 ms since boot, then busy
  for 150 ms and idle for 50 ms.
\<close>

definition host_t0 :: world where
  "host_t0 = bare_metal\<lparr>cpus := [core 50 50]\<rparr>"

definition host_t1 :: world where
  "host_t1 = bare_metal\<lparr>cpus := [core 150 50]\<rparr>"

text \<open>
  Containers whose files are not as expected: a quota that is no number, a \<open>cpu.stat\<close>
  without the key \<open>usage_usec\<close>, and a \<open>/proc/stat\<close> without the aggregate line, under V2
  and, at the moment of \<open>tick_b\<close>, under V1.
\<close>

definition bad_quota :: world where
  "bad_quota =
     cgroup_v1_host ''abc'' ''100000'' ''1000000000'' ''cpu  100 0 100 200 0 0 0 0 0 0''"

definition missing_usage_key :: world where
  "missing_usage_key =
     cgroup_v2_host ''200000 100000'' [''user_usec 4000000'', ''system_usec 1000000'']
       [''cpu  100 0 100 200 0 0 0 0 0 0'', ''cpu0 25 0 25 50 0 0 0 0 0 0'']"

definition missing_cpu_line :: world where
  "missing_cpu_line =
     cgroup_v2_host ''200000 100000'' [''usage_usec 5000000'', ''user_usec 4000000'']
       [''cpu0 25 0 25 50 0 0 0 0 0 0'', ''intr 12345'']"

definition tick_no_cpu_line :: world where
  "tick_no_cpu_line =
     cgroup_v1_host ''200000'' ''100000'' ''3000000000'' ''cpu0 25 0 25 50 0 0 0 0 0 0''"

text \<open>The bare-metal host with a memory sampler that fails.\<close>

definition no_memory_info :: world where
  "no_memory_info = bare_metal\<lparr>getMemoryInfo := Inl (Rejected ''memory'')\<rparr>"

section \<open>Evaluation of the definitions\<close>

lemmas js_string_defs = is_ws_def trim_def trimStart_def split_ws_def startsWith_def
  file_of_lines_def

lemmas js_number_defs = Number_def parseInt_def radix_literal_def unsigned_decimal_def
  exponent_part_def pow10_def is_digit_def digit_of_def digits_val_def

lemmas reader_defs = getCpuQuota_def getCpuPeriod_def getContainerCpuUsage_def
  getSystemCpuUsage_def sampleCpuUsage_def cpu_line_usage_def NANOSECONDS_PER_SECOND_def
  CLOCK_TICKS_PER_SECOND_def readFile_def

section \<open>Properties of the version detection\<close>

lemma getCgroupsVersion_cached:
  "cgroupsVersion t = Some v \<Longrightarrow> getCgroupsVersion w t = (v, t)"
  by (simp add: getCgroupsVersion_def)

lemma getCgroupsVersion_first:
  "cgroupsVersion s = None \<Longrightarrow>
   getCgroupsVersion w s =
     (case access_failure w ''/sys/fs/cgroup/memory/'' of None \<Rightarrow> V1 | Some e \<Rightarrow> V2,
      s\<lparr>cgroupsVersion :=
           Some (case access_failure w ''/sys/fs/cgroup/memory/'' of None \<Rightarrow> V1 | Some e \<Rightarrow> V2),
        fs_calls := fs_calls s @ [Access ''/sys/fs/cgroup/memory/'']\<rparr>)"
  by (simp add: getCgroupsVersion_def access_def split: option.splits)

section \<open>State effects of the readers\<close>

lemma readFile_state: "snd (readFile w p s) = s\<lparr>fs_calls := fs_calls s @ [ReadFile p]\<rparr>"
  by (simp add: readFile_def)

lemma readFile_result:
  "fst (readFile w p s) = (case files w p of None \<Rightarrow> Inl (ReadFileError p) | Some d \<Rightarrow> Inr d)"
  by (simp add: readFile_def)

lemma getCpuQuota_state:
  "snd (getCpuQuota v w s) = s\<lparr>fs_calls := fs_calls s @ [ReadFile (CPU_FILE_PATHS QUOTA v)]\<rparr>"
  by (cases v) (simp_all add: getCpuQuota_def readFile_def Let_def split: option.splits)

lemma getCpuPeriod_state:
  "snd (getCpuPeriod v w s) = s\<lparr>fs_calls := fs_calls s @ [ReadFile (CPU_FILE_PATHS PERIOD v)]\<rparr>"
  by (cases v) (simp_all add: getCpuPeriod_def readFile_def Let_def split: option.splits)

lemma getContainerCpuUsage_state:
  "snd (getContainerCpuUsage v w s) =
     s\<lparr>fs_calls := fs_calls s @ [ReadFile (CPU_FILE_PATHS STAT v)]\<rparr>"
  by (cases v) (simp_all add: getContainerCpuUsage_def readFile_def Let_def split: option.splits)

lemma getSystemCpuUsage_state:
  "snd (getSystemCpuUsage w s) = s\<lparr>fs_calls := fs_calls s @ [ReadFile ''/proc/stat'']\<rparr>"
  by (simp add: getSystemCpuUsage_def readFile_def split: option.splits)

lemma sampleCpuUsage_state:
  "snd (sampleCpuUsage v w s) =
     s\<lparr>fs_calls := fs_calls s @ [ReadFile (CPU_FILE_PATHS STAT v), ReadFile ''/proc/stat'']\<rparr>"
proof -
  obtain c s1 where c: "getContainerCpuUsage v w s = (c, s1)" by (cases "getContainerCpuUsage v w s")
  obtain y s2 where y: "getSystemCpuUsage w s1 = (y, s2)" by (cases "getSystemCpuUsage w s1")
  from c have s1: "s1 = s\<lparr>fs_calls := fs_calls s @ [ReadFile (CPU_FILE_PATHS STAT v)]\<rparr>"
    using getContainerCpuUsage_state [of v w s] by simp
  from y have s2: "s2 = s1\<lparr>fs_calls := fs_calls s1 @ [ReadFile ''/proc/stat'']\<rparr>"
    using getSystemCpuUsage_state [of w s1] by simp
  have "snd (sampleCpuUsage v w s) = s2"
    by (simp add: sampleCpuUsage_def c y split: sum.splits)
  with s1 s2 show ?thesis by simp
qed

lemma getCgroupsVersion_previousSample:
  "previousSample (snd (getCgroupsVersion w s)) = previousSample s"
  by (simp add: getCgroupsVersion_def access_def Let_def split: option.splits)

section \<open>The branch of a limited quota\<close>

lemma getCpuInfo_containerised:
  assumes "\<not> isLambdaEnvironment w" and "isContainerised w = Inr True"
    and "getCgroupsVersion w s = (cgv, s1)"
  shows "getCpuInfo w s =
     (case getCpuQuota cgv w s1 of
        (Inl e, s2) \<Rightarrow> (Inl e, s2)
      | (Inr None, s2) \<Rightarrow> (Inr (getCurrentCpuTicks (cpus w)), s2)
      | (Inr (Some quota), s2) \<Rightarrow>
          (case getCpuPeriod cgv w s2 of
             (Inl e, s3) \<Rightarrow> (Inl e, s3)
           | (Inr period, s3) \<Rightarrow>
               (case sampleCpuUsage cgv w s3 of
                  (Inl e, s4) \<Rightarrow> (Inl e, s4)
                | (Inr sample, s4) \<Rightarrow>
                    (Inr (js_div
                            (js_mul
                               (js_mul
                                  (js_div
                                     (js_sub (containerUsage sample)
                                        (containerUsage (previousSample s4)))
                                     (js_sub (systemUsage sample)
                                        (systemUsage (previousSample s4))))
                                  (Num (real (length (cpus w)))))
                               (Num 100))
                            (js_div quota period)),
                     s4\<lparr>previousSample := sample\<rparr>))))"
  using assms by (simp add: getCpuInfo_def Let_def split: prod.splits sum.splits option.splits)



text \<open>
  C4. In a container with a limited quota, when the quota, the period and both usage
  counters are read, \<open>getCpuInfo\<close> returns
  \<open>((containerDelta / systemDelta) * numCpus * 100) / (quota / period)\<close>, the deltas taken
  against the stored previous sample, and stores the new sample in its place. For finite
  values with a system delta and an allowance that are not zero this is the real number
  \<open>(containerDelta / systemDelta) * numCpus * 100 / allowance\<close>.
\<close>

theorem getCpuInfo_limited_quota:
  assumes "\<not> isLambdaEnvironment w" and "isContainerised w = Inr True"
    and "getCgroupsVersion w s = (cgv, s1)"
    and "getCpuQuota cgv w s1 = (Inr (Some quota), s2)"
    and "getCpuPeriod cgv w s2 = (Inr period, s3)"
    and "sampleCpuUsage cgv w s3 = (Inr sample, s4)"
  shows "getCpuInfo w s =
           (Inr (js_div
                   (js_mul
                      (js_mul
                         (js_div
                            (js_sub (containerUsage sample) (containerUsage (previousSample s)))
                            (js_sub (systemUsage sample) (systemUsage (previousSample s))))
                         (Num (real (length (cpus w)))))
                      (Num 100))
                   (js_div quota period)),
            s4\<lparr>previousSample := sample\<rparr>)
       \<and> (\<forall>c0 y0 c1 y1 a.
             previousSample s = \<lparr>containerUsage = Num c0, systemUsage = Num y0\<rparr> \<and>
             sample = \<lparr>containerUsage = Num c1, systemUsage = Num y1\<rparr> \<and>
             y1 \<noteq> y0 \<and> js_div quota period = Num a \<and> a \<noteq> 0 \<longrightarrow>
             fst (getCpuInfo w s) =
               Inr (Num ((c1 - c0) / (y1 - y0) * real (length (cpus w)) * 100 / a)))"
proof -
  have "previousSample s1 = previousSample s"
    using getCgroupsVersion_previousSample [of w s] assms(3) by simp
  moreover have "previousSample s2 = previousSample s1"
    using getCpuQuota_state [of cgv w s1] assms(4) by simp
  moreover have "previousSample s3 = previousSample s2"
    using getCpuPeriod_state [of cgv w s2] assms(5) by simp
  moreover have "previousSample s4 = previousSample s3"
    using sampleCpuUsage_state [of cgv w s3] assms(6) by simp
  ultimately have prev: "previousSample s4 = previousSample s"
    by simp
  have whole: "getCpuInfo w s =
      (Inr (js_div
              (js_mul
                 (js_mul
                    (js_div
                       (js_sub (containerUsage sample) (containerUsage (previousSample s)))
                       (js_sub (systemUsage sample) (systemUsage (previousSample s))))
                    (Num (real (length (cpus w)))))
                 (Num 100))
              (js_div quota period)),
       s4\<lparr>previousSample := sample\<rparr>)"
    by (simp add: getCpuInfo_containerised [OF assms(1,2,3)] assms(4,5,6) prev)
  have "fst (getCpuInfo w s) =
          Inr (Num ((c1 - c0) / (y1 - y0) * real (length (cpus w)) * 100 / a))"
    if "previousSample s = \<lparr>containerUsage = Num c0, systemUsage = Num y0\<rparr>"
      and "sample = \<lparr>containerUsage = Num c1, systemUsage = Num y1\<rparr>"
      and "y1 \<noteq> y0" and "js_div quota period = Num a" and "a \<noteq> 0"
    for c0 y0 c1 y1 a
    using that by (simp add: whole js_sub_def)
  with whole show ?thesis by blast
qed

lemma cgroup_v1_host_env:
  "\<not> isLambdaEnvironment (cgroup_v1_host q p u st)"
  "isContainerised (cgroup_v1_host q p u st) = Inr True"
  "access_failure (cgroup_v1_host q p u st) = Map.empty"
  "length (cpus (cgroup_v1_host q p u st)) = 4"
  by (simp_all add: cgroup_v1_host_def bare_metal_def isLambdaEnvironment_def)

lemma tick_a_readers:
  "getCpuQuota V1 tick_a s =
     (Inr (Some (Num 200000)),
      s\<lparr>fs_calls := fs_calls s @ [ReadFile ''/sys/fs/cgroup/cpu/cpu.cfs_quota_us'']\<rparr>)"
  "getCpuPeriod V1 tick_a s =
     (Inr (Num 100000),
      s\<lparr>fs_calls := fs_calls s @ [ReadFile ''/sys/fs/cgroup/cpu/cpu.cfs_period_us'']\<rparr>)"
  "sampleCpuUsage V1 tick_a s =
     (Inr \<lparr>containerUsage = Num 1000000000, systemUsage = Num 4000000000\<rparr>,
      s\<lparr>fs_calls := fs_calls s @ [ReadFile ''/sys/fs/cgroup/cpuacct/cpuacct.usage'',
             ReadFile ''/proc/stat'']\<rparr>)"
  by (simp_all add: reader_defs tick_a_def cgroup_v1_host_def js_string_defs js_number_defs)

lemma tick_b_readers:
  "getCpuQuota V1 tick_b s =
     (Inr (Some (Num 200000)),
      s\<lparr>fs_calls := fs_calls s @ [ReadFile ''/sys/fs/cgroup/cpu/cpu.cfs_quota_us'']\<rparr>)"
  "getCpuPeriod V1 tick_b s =
     (Inr (Num 100000),
      s\<lparr>fs_calls := fs_calls s @ [ReadFile ''/sys/fs/cgroup/cpu/cpu.cfs_period_us'']\<rparr>)"
  "sampleCpuUsage V1 tick_b s =
     (Inr \<lparr>containerUsage = Num 3000000000, systemUsage = Num 8000000000\<rparr>,
      s\<lparr>fs_calls := fs_calls s @ [ReadFile ''/sys/fs/cgroup/cpuacct/cpuacct.usage'',
             ReadFile ''/proc/stat'']\<rparr>)"
  by (simp_all add: reader_defs tick_b_def cgroup_v1_host_def js_string_defs js_number_defs)

lemma tick_a_first_call: "getCpuInfo tick_a initial_state = (Inr (Num 50), after_tick_a)"
proof -
  have e: "\<not> isLambdaEnvironment tick_a" "isContainerised tick_a = Inr True"
    and n: "length (cpus tick_a) = 4"
    and a: "access_failure tick_a ''/sys/fs/cgroup/memory/'' = None"
    by (simp_all add: tick_a_def cgroup_v1_host_env)
  have v: "getCgroupsVersion tick_a initial_state =
      (V1, initial_state\<lparr>cgroupsVersion := Some V1,
             fs_calls := [Access ''/sys/fs/cgroup/memory/'']\<rparr>)"
    by (simp add: getCgroupsVersion_def access_def a initial_state_def)
  show ?thesis
    by (simp add: getCpuInfo_containerised [OF e v] tick_a_readers n js_sub_def)
      (simp add: after_tick_a_def initial_state_def)
qed

theorem getCpuInfo_limited_quota_witness:
  "getCpuInfo tick_a initial_state = (Inr (Num 50), after_tick_a)
   \<and> js_div (Num 200000) (Num 100000) = Num 2
   \<and> fst (getCpuInfo tick_b after_tick_a) =
       Inr (Num ((3000000000 - 1000000000) / (8000000000 - 4000000000) * 4 * 100 / 2))
   \<and> fst (getCpuInfo tick_b after_tick_a) = Inr (Num 100)
   \<and> previousSample (snd (getCpuInfo tick_b after_tick_a)) =
       \<lparr>containerUsage = Num 3000000000, systemUsage = Num 8000000000\<rparr>"
proof -
  have h1: "\<not> isLambdaEnvironment tick_b" and h2: "isContainerised tick_b = Inr True"
    by (simp_all add: tick_b_def cgroup_v1_host_env)
  have h3: "getCgroupsVersion tick_b after_tick_a = (V1, after_tick_a)"
    by (simp add: getCgroupsVersion_cached after_tick_a_def)
  note th = getCpuInfo_limited_quota [OF h1 h2 h3 tick_b_readers(1) tick_b_readers(2)
      tick_b_readers(3)]
  have n: "length (cpus tick_b) = 4"
    by (simp add: tick_b_def cgroup_v1_host_env)
  from th show ?thesis
    by (simp add: tick_a_first_call n js_sub_def after_tick_a_def)
qed

section \<open>The branch of an unlimited quota\<close>

lemma getCpuQuota_read:
  assumes "files w (CPU_FILE_PATHS QUOTA v) = Some content"
  shows "getCpuQuota v w s =
     (Inr (case v of
             V1 \<Rightarrow> if parseInt (Some (trim content)) = Num (- 1) then None
                   else Some (parseInt (Some (trim content)))
           | V2 \<Rightarrow> if nth_opt (split_ws (trim content)) 0 = Some ''max'' then None
                   else Some (parseInt (nth_opt (split_ws (trim content)) 0))),
      s\<lparr>fs_calls := fs_calls s @ [ReadFile (CPU_FILE_PATHS QUOTA v)]\<rparr>)"
  using assms by (cases v) (simp_all add: getCpuQuota_def readFile_def Let_def)

lemma limited_branch_reads_on:
  assumes "\<not> isLambdaEnvironment w" and "isContainerised w = Inr True"
    and "getCgroupsVersion w s = (cgv, s1)"
    and "getCpuQuota cgv w s1 = (Inr (Some q), s2)"
  shows "length (fs_calls s2) < length (fs_calls (snd (getCpuInfo w s)))"
proof -
  obtain r3 s3 where p: "getCpuPeriod cgv w s2 = (r3, s3)"
    by (cases "getCpuPeriod cgv w s2")
  obtain r4 s4 where u: "sampleCpuUsage cgv w s3 = (r4, s4)"
    by (cases "sampleCpuUsage cgv w s3")
  from p have s3: "fs_calls s3 = fs_calls s2 @ [ReadFile (CPU_FILE_PATHS PERIOD cgv)]"
    using getCpuPeriod_state [of cgv w s2] by simp
  from u have s4: "fs_calls s4 =
      fs_calls s3 @ [ReadFile (CPU_FILE_PATHS STAT cgv), ReadFile ''/proc/stat'']"
    using sampleCpuUsage_state [of cgv w s3] by simp
  show ?thesis
    by (simp add: getCpuInfo_containerised [OF assms(1,2,3)] assms(4) p u s3 s4
        split: sum.splits)
qed

text \<open>
  C5. In a container, with a quota file that can be read, \<open>getCpuInfo\<close> returns the
  host-tick value right after the quota read (no further file is read, the previous sample
  stays as it was) exactly when the quota is unlimited: under V1 when the trimmed content
  parses to \<open>-1\<close>, under V2 when the first field is \<open>max\<close>; this is when \<open>getCpuQuota\<close>
  gives \<open>null\<close>. Every other content gives the parsed quota, and the call goes on to the
  period and the sample and divides by \<open>quota / period\<close>.
\<close>

theorem getCpuInfo_unlimited_quota:
  assumes "\<not> isLambdaEnvironment w" and "isContainerised w = Inr True"
    and "getCgroupsVersion w s = (cgv, s1)"
    and "files w (CPU_FILE_PATHS QUOTA cgv) = Some content"
    and "unlimited =
           (case cgv of
              V1 \<Rightarrow> parseInt (Some (trim content)) = Num (- 1)
            | V2 \<Rightarrow> nth_opt (split_ws (trim content)) 0 = Some ''max'')"
    and "parsed =
           (case cgv of
              V1 \<Rightarrow> parseInt (Some (trim content))
            | V2 \<Rightarrow> parseInt (nth_opt (split_ws (trim content)) 0))"
    and "s2 = s1\<lparr>fs_calls := fs_calls s1 @ [ReadFile (CPU_FILE_PATHS QUOTA cgv)]\<rparr>"
  shows "(getCpuInfo w s = (Inr (getCurrentCpuTicks (cpus w)), s2) \<longleftrightarrow> unlimited)
       \<and> (fst (getCpuQuota cgv w s1) = Inr None \<longleftrightarrow> unlimited)
       \<and> (unlimited \<longrightarrow> previousSample (snd (getCpuInfo w s)) = previousSample s)
       \<and> (\<not> unlimited \<longrightarrow>
            getCpuQuota cgv w s1 = (Inr (Some parsed), s2) \<and>
            getCpuInfo w s =
              (case getCpuPeriod cgv w s2 of
                 (Inl e, s3) \<Rightarrow> (Inl e, s3)
               | (Inr period, s3) \<Rightarrow>
                   (case sampleCpuUsage cgv w s3 of
                      (Inl e, s4) \<Rightarrow> (Inl e, s4)
                    | (Inr sample, s4) \<Rightarrow>
                        (Inr (js_div
                                (js_mul
                                   (js_mul
                                      (js_div
                                         (js_sub (containerUsage sample)
                                            (containerUsage (previousSample s4)))
                                         (js_sub (systemUsage sample)
                                            (systemUsage (previousSample s4))))
                                      (Num (real (length (cpus w)))))
                                   (Num 100))
                                (js_div parsed period)),
                         s4\<lparr>previousSample := sample\<rparr>))))"
proof -
  have q: "getCpuQuota cgv w s1 = (Inr (if unlimited then None else Some parsed), s2)"
    using assms(4,5,6,7) by (cases cgv) (simp_all add: getCpuQuota_read)
  note body = getCpuInfo_containerised [OF assms(1,2,3)]
  have prev1: "previousSample s1 = previousSample s"
    using getCgroupsVersion_previousSample [of w s] assms(3) by simp
  have fallback: "getCpuInfo w s = (Inr (getCurrentCpuTicks (cpus w)), s2)" if unlimited
    using that by (simp add: body q)
  have limited: "getCpuInfo w s \<noteq> (Inr (getCurrentCpuTicks (cpus w)), s2)" if "\<not> unlimited"
  proof
    assume eq: "getCpuInfo w s = (Inr (getCurrentCpuTicks (cpus w)), s2)"
    from that have "getCpuQuota cgv w s1 = (Inr (Some parsed), s2)"
      by (simp add: q)
    from limited_branch_reads_on [OF assms(1,2,3) this] eq show False
      by simp
  qed
  have "getCpuInfo w s = (Inr (getCurrentCpuTicks (cpus w)), s2) \<longleftrightarrow> unlimited"
    using fallback limited by blast
  moreover have "fst (getCpuQuota cgv w s1) = Inr None \<longleftrightarrow> unlimited"
    by (simp add: q)
  moreover have "previousSample (snd (getCpuInfo w s)) = previousSample s" if unlimited
    using fallback [OF that] prev1 by (simp add: assms(7))
  moreover have "getCpuQuota cgv w s1 = (Inr (Some parsed), s2)" if "\<not> unlimited"
    using that by (simp add: q)
  moreover have "getCpuInfo w s =
              (case getCpuPeriod cgv w s2 of
                 (Inl e, s3) \<Rightarrow> (Inl e, s3)
               | (Inr period, s3) \<Rightarrow>
                   (case sampleCpuUsage cgv w s3 of
                      (Inl e, s4) \<Rightarrow> (Inl e, s4)
                    | (Inr sample, s4) \<Rightarrow>
                        (Inr (js_div
                                (js_mul
                                   (js_mul
                                      (js_div
                                         (js_sub (containerUsage sample)
                                            (containerUsage (previousSample s4)))
                                         (js_sub (systemUsage sample)
                                            (systemUsage (previousSample s4))))
                                      (Num (real (length (cpus w)))))
                                   (Num 100))
                                (js_div parsed period)),
                         s4\<lparr>previousSample := sample\<rparr>)))" if "\<not> unlimited"
    using that by (simp add: body q)
  ultimately show ?thesis by blast
qed

lemma cgroup_v2_host_env:
  "\<not> isLambdaEnvironment (cgroup_v2_host m st pst)"
  "isContainerised (cgroup_v2_host m st pst) = Inr True"
  "access_failure (cgroup_v2_host m st pst) ''/sys/fs/cgroup/memory/'' =
     Some (AccessError ''ENOENT'')"
  "cpus (cgroup_v2_host m st pst) = cpus bare_metal"
  "files (cgroup_v2_host m st pst) ''/sys/fs/cgroup/cpu.max'' = Some (file_of_lines [m])"
  by (simp_all add: cgroup_v2_host_def bare_metal_def isLambdaEnvironment_def)

lemma bare_metal_ticks: "getCurrentCpuTicks (cpus bare_metal) = Num (1 / 2)"
  by (simp add: getCurrentCpuTicks_def bare_metal_def core_def add_core_def sum_times_def
      previousTicks_def js_sub_def)

theorem getCpuInfo_unlimited_quota_witness:
  "nth_opt (split_ws (trim (file_of_lines [''max 100000'']))) 0 = Some ''max''
   \<and> getCpuInfo unlimited_v2 initial_state =
       (Inr (Num (1 / 2)),
        initial_state\<lparr>cgroupsVersion := Some V2,
          fs_calls := [Access ''/sys/fs/cgroup/memory/'', ReadFile ''/sys/fs/cgroup/cpu.max'']\<rparr>)
   \<and> previousSample (snd (getCpuInfo unlimited_v2 initial_state)) =
       previousSample initial_state
   \<and> parseInt (Some (trim (file_of_lines [''-1'']))) = Num (- 1)
   \<and> fst (getCpuInfo unlimited_v1 initial_state) = Inr (Num (1 / 2))
   \<and> parseInt (Some (trim (file_of_lines [''200000'']))) = Num 200000
   \<and> fst (getCpuQuota V1 tick_a
           (initial_state\<lparr>cgroupsVersion := Some V1,
              fs_calls := [Access ''/sys/fs/cgroup/memory/'']\<rparr>)) = Inr (Some (Num 200000))"
proof -
  let ?s2 = "initial_state\<lparr>cgroupsVersion := Some V2,
               fs_calls := [Access ''/sys/fs/cgroup/memory/'']\<rparr>"
  let ?s1 = "initial_state\<lparr>cgroupsVersion := Some V1,
               fs_calls := [Access ''/sys/fs/cgroup/memory/'']\<rparr>"
  have max: "nth_opt (split_ws (trim (file_of_lines [''max 100000'']))) 0 = Some ''max''"
    by (simp add: js_string_defs)
  have minus: "parseInt (Some (trim (file_of_lines [''-1'']))) = Num (- 1)"
    by (simp add: js_string_defs js_number_defs)
  have plain: "parseInt (Some (trim (file_of_lines [''200000'']))) = Num 200000"
    by (simp add: js_string_defs js_number_defs)
  have a1: "\<not> isLambdaEnvironment unlimited_v2" "isContainerised unlimited_v2 = Inr True"
    and a3: "getCgroupsVersion unlimited_v2 initial_state = (V2, ?s2)"
    and a4: "files unlimited_v2 (CPU_FILE_PATHS QUOTA V2) = Some (file_of_lines [''max 100000''])"
    and a5: "getCurrentCpuTicks (cpus unlimited_v2) = Num (1 / 2)"
    by (simp_all add: unlimited_v2_def cgroup_v2_host_env getCgroupsVersion_def access_def
        initial_state_def bare_metal_ticks)
  have b1: "\<not> isLambdaEnvironment unlimited_v1" "isContainerised unlimited_v1 = Inr True"
    and b3: "getCgroupsVersion unlimited_v1 initial_state = (V1, ?s1)"
    and b4: "files unlimited_v1 (CPU_FILE_PATHS QUOTA V1) = Some (file_of_lines [''-1''])"
    and b5: "getCurrentCpuTicks (cpus unlimited_v1) = Num (1 / 2)"
    by (simp_all add: unlimited_v1_def cgroup_v1_host_env getCgroupsVersion_def access_def
        initial_state_def)
      (simp_all add: cgroup_v1_host_def bare_metal_ticks)
  have c1: "\<not> isLambdaEnvironment tick_a" "isContainerised tick_a = Inr True"
    and c3: "getCgroupsVersion tick_a initial_state = (V1, ?s1)"
    and c4: "files tick_a (CPU_FILE_PATHS QUOTA V1) = Some (file_of_lines [''200000''])"
    by (simp_all add: tick_a_def cgroup_v1_host_env getCgroupsVersion_def access_def
        initial_state_def)
      (simp_all add: cgroup_v1_host_def)
  from getCpuInfo_unlimited_quota [OF a1 a3 a4 refl refl refl]
    getCpuInfo_unlimited_quota [OF b1 b3 b4 refl refl refl]
    getCpuInfo_unlimited_quota [OF c1 c3 c4 refl refl refl]
  show ?thesis
    by (simp add: max minus plain a5 b5)
qed

section \<open>The host-wide tick ratio\<close>

lemma foldl_add_core:
  "foldl add_core \<lparr>t_idle = Num a, t_total = Num b\<rparr> cs =
     \<lparr>t_idle = Num (a + real (idle_sum cs)), t_total = Num (b + real (total_sum cs))\<rparr>"
proof (induction cs arbitrary: a b)
  case Nil
  then show ?case by (simp add: idle_sum_def total_sum_def)
next
  case (Cons c cs)
  have "add_core \<lparr>t_idle = Num a, t_total = Num b\<rparr> c =
      \<lparr>t_idle = Num (a + real (idle c)),
       t_total = Num (b + real (user c + nice c + sys c + idle c + irq c))\<rparr>"
    by (simp add: add_core_def sum_times_def)
  then show ?case
    by (simp add: Cons.IH idle_sum_def total_sum_def algebra_simps)
qed

text \<open>
  The value of \<open>getCurrentCpuTicks\<close> is a function of the counters of the cores as they
  stand, summed since boot: the deltas are taken against \<open>previousTicks\<close>, which stays zero.
\<close>

lemma getCurrentCpuTicks_since_boot:
  "getCurrentCpuTicks cs =
     (if total_sum cs = 0 then Num 0
      else Num (1 - real (idle_sum cs) / real (total_sum cs)))"
  by (simp add: getCurrentCpuTicks_def foldl_add_core previousTicks_def js_sub_def)

lemma getCurrentCpuTicks_ratio:
  "\<exists>r. getCurrentCpuTicks cs = Num r \<and> 0 \<le> r \<and> r \<le> 1"
proof -
  have "idle_sum cs \<le> total_sum cs"
    unfolding idle_sum_def total_sum_def by (induction cs) auto
  then have "real (idle_sum cs) / real (total_sum cs) \<le> 1"
    by (cases "total_sum cs = 0") (simp_all add: divide_le_eq_1)
  moreover have "0 \<le> real (idle_sum cs) / real (total_sum cs)"
    by simp
  ultimately show ?thesis
    by (simp add: getCurrentCpuTicks_since_boot)
qed

lemma bare_metal_env:
  "\<not> isLambdaEnvironment (bare_metal\<lparr>cpus := cs\<rparr>)"
  "isContainerised (bare_metal\<lparr>cpus := cs\<rparr>) = Inr False"
  by (simp_all add: bare_metal_def isLambdaEnvironment_def)

lemma getCpuInfo_not_containerised:
  "\<not> isLambdaEnvironment w \<Longrightarrow> isContainerised w = Inr False \<Longrightarrow>
   getCpuInfo w s = (Inr (getCurrentCpuTicks (cpus w)), s)"
  by (simp add: getCpuInfo_def)

lemma getCpuInfo_lambda:
  "isLambdaEnvironment w \<Longrightarrow> getCpuInfo w s = (Inr (getCurrentCpuTicks (cpus w)), s)"
  by (simp add: getCpuInfo_def)

text \<open>
  C2. Two consecutive calls on a one-core host. At the first call the core has been busy
  for 50 ms and idle for 50 ms since boot; at the second, busy for 150 ms and idle for 50 ms:
  between the calls the idle delta is 0 and the total delta is 100, so the ratio of the
  interval is \<open>1 - 0 / 100 = 1\<close>. The second call returns \<open>3/4\<close>, the ratio since boot.
  When the second call sees the counters of the first again (a total delta of zero), it
  returns \<open>1/2\<close> and not \<open>0\<close>.
\<close>

theorem getCurrentCpuTicks_ignores_previous_call:
  "getCpuInfo host_t0 initial_state = (Inr (Num (1 / 2)), initial_state)
   \<and> getCpuInfo host_t1 (snd (getCpuInfo host_t0 initial_state)) =
       (Inr (Num (3 / 4)), initial_state)
   \<and> Num (3 / 4) \<noteq> Num (1 - (50 - 50) / (200 - 100))
   \<and> getCpuInfo host_t0 (snd (getCpuInfo host_t0 initial_state)) =
       (Inr (Num (1 / 2)), initial_state)
   \<and> Num (1 / 2) \<noteq> Num 0
   \<and> getCurrentCpuTicks (cpus host_t0) = Num (1 / 2)
   \<and> getCurrentCpuTicks (cpus host_t1) = Num (3 / 4)"
proof -
  have t0: "getCurrentCpuTicks (cpus host_t0) = Num (1 / 2)"
    by (simp add: getCurrentCpuTicks_since_boot host_t0_def core_def idle_sum_def
        total_sum_def)
  have t1: "getCurrentCpuTicks (cpus host_t1) = Num (3 / 4)"
    by (simp add: getCurrentCpuTicks_since_boot host_t1_def core_def idle_sum_def
        total_sum_def)
  have c0: "getCpuInfo host_t0 s = (Inr (Num (1 / 2)), s)" for s
    using getCpuInfo_not_containerised [of host_t0 s] bare_metal_env [of "[core 50 50]"]
    by (simp add: t0 host_t0_def [symmetric])
  have c1: "getCpuInfo host_t1 s = (Inr (Num (3 / 4)), s)" for s
    using getCpuInfo_not_containerised [of host_t1 s] bare_metal_env [of "[core 150 50]"]
    by (simp add: t1 host_t1_def [symmetric])
  show ?thesis
    by (simp add: c0 c1 t0 t1)
qed

section \<open>The scale of the returned value\<close>

lemma tick_half_readers:
  "getCpuQuota V1 tick_half s =
     (Inr (Some (Num 200000)),
      s\<lparr>fs_calls := fs_calls s @ [ReadFile ''/sys/fs/cgroup/cpu/cpu.cfs_quota_us'']\<rparr>)"
  "getCpuPeriod V1 tick_half s =
     (Inr (Num 100000),
      s\<lparr>fs_calls := fs_calls s @ [ReadFile ''/sys/fs/cgroup/cpu/cpu.cfs_period_us'']\<rparr>)"
  "sampleCpuUsage V1 tick_half s =
     (Inr \<lparr>containerUsage = Num 2000000000, systemUsage = Num 8000000000\<rparr>,
      s\<lparr>fs_calls := fs_calls s @ [ReadFile ''/sys/fs/cgroup/cpuacct/cpuacct.usage'',
             ReadFile ''/proc/stat'']\<rparr>)"
  by (simp_all add: reader_defs tick_half_def cgroup_v1_host_def js_string_defs js_number_defs)

lemma tick_half_second_call: "fst (getCpuInfo tick_half after_tick_a) = Inr (Num 50)"
proof -
  have e: "\<not> isLambdaEnvironment tick_half" "isContainerised tick_half = Inr True"
    and n: "length (cpus tick_half) = 4"
    by (simp_all add: tick_half_def cgroup_v1_host_env)
  have v: "getCgroupsVersion tick_half after_tick_a = (V1, after_tick_a)"
    by (simp add: getCgroupsVersion_cached after_tick_a_def)
  show ?thesis
    by (simp add: getCpuInfo_containerised [OF e v] tick_half_readers n js_sub_def)
      (simp add: after_tick_a_def)
qed

text \<open>
  C1. Between \<open>tick_a\<close> and \<open>tick_half\<close> one second passes on each of the four cores
  (the system counter advances by \<open>4 * 10^9\<close> ns) and the container, entitled to two
  cores, consumes one second of CPU time: half of its capacity, a ratio of \<open>0.5\<close>. The
  call returns \<open>50\<close>; the snapshot built from it reports a usage of \<open>5000\<close> and an
  overload against a limit of \<open>0.95\<close>. On the bare-metal branch, with the cores half
  idle, the call returns \<open>0.5\<close>, and the snapshot reports \<open>50\<close> and no overload.
\<close>

theorem getCpuInfo_container_percent_scale:
  "fst (getCpuInfo tick_half after_tick_a) = Inr (Num 50)
   \<and> fst (fst (createCpuInfo (Num (95 / 100)) tick_half after_tick_a)) =
       [''cpuCurrentUsage'' \<mapsto> VNum (Num 5000), ''isCpuOverloaded'' \<mapsto> VBool True]
   \<and> fst (getCpuInfo bare_metal after_tick_a) = Inr (Num (1 / 2))
   \<and> fst (fst (createCpuInfo (Num (95 / 100)) bare_metal after_tick_a)) =
       [''cpuCurrentUsage'' \<mapsto> VNum (Num 50), ''isCpuOverloaded'' \<mapsto> VBool False]"
proof -
  have "\<not> isLambdaEnvironment bare_metal" and "isContainerised bare_metal = Inr False"
    by (simp_all add: bare_metal_def isLambdaEnvironment_def)
  then have b: "getCpuInfo bare_metal s = (Inr (Num (1 / 2)), s)" for s
    by (simp add: getCpuInfo_not_containerised bare_metal_ticks)
  obtain s' where h: "getCpuInfo tick_half after_tick_a = (Inr (Num 50), s')"
    using tick_half_second_call by (cases "getCpuInfo tick_half after_tick_a") simp
  show ?thesis
    by (simp add: createCpuInfo_def h b)
qed

section \<open>Failures of the readers\<close>

lemma getCpuPeriod_result:
  "fst (getCpuPeriod v w s) =
     (case files w (CPU_FILE_PATHS PERIOD v) of
        None \<Rightarrow> Inl (ReadFileError (CPU_FILE_PATHS PERIOD v))
      | Some d \<Rightarrow>
          Inr (case v of
                 V1 \<Rightarrow> parseInt (Some (trim d))
               | V2 \<Rightarrow> parseInt (nth_opt (split_ws (trim d)) 1)))"
  by (cases v) (simp_all add: getCpuPeriod_def readFile_def Let_def split: option.splits)

lemma getContainerCpuUsage_result:
  "fst (getContainerCpuUsage v w s) =
     (case files w (CPU_FILE_PATHS STAT v) of
        None \<Rightarrow> Inl (ReadFileError (CPU_FILE_PATHS STAT v))
      | Some d \<Rightarrow>
          Inr (case v of
                 V1 \<Rightarrow> Number (Some (trim d))
               | V2 \<Rightarrow> js_mul (scan_usage_usec (split_nl d) (Num 0)) (Num 1000)))"
  by (cases v)
    (simp_all add: getContainerCpuUsage_def readFile_def Let_def split: option.splits)

lemma getSystemCpuUsage_result:
  "fst (getSystemCpuUsage w s) =
     (case files w ''/proc/stat'' of
        None \<Rightarrow> Inl (ReadFileError ''/proc/stat'')
      | Some d \<Rightarrow> scan_cpu_line (split_nl d))"
  by (simp add: getSystemCpuUsage_def readFile_def split: option.splits)

lemma scan_cpu_line_missing:
  "\<not> list_ex (\<lambda>l. startsWith l ''cpu '') ls \<Longrightarrow> scan_cpu_line ls = Inl NoCpuLine"
  by (induction ls) simp_all

lemma scan_cpu_line_found:
  "list_ex (\<lambda>l. startsWith l ''cpu '') ls \<Longrightarrow> \<exists>u. scan_cpu_line ls = Inr u"
  by (induction ls) auto

lemma sampleCpuUsage_result:
  "fst (sampleCpuUsage v w s) =
     (case fst (getContainerCpuUsage v w s) of
        Inl e \<Rightarrow> Inl e
      | Inr cu \<Rightarrow>
          (case fst (getSystemCpuUsage w s) of
             Inl e \<Rightarrow> Inl e
           | Inr su \<Rightarrow> Inr \<lparr>containerUsage = cu, systemUsage = su\<rparr>))"
proof -
  obtain c s1 where c: "getContainerCpuUsage v w s = (c, s1)"
    by (cases "getContainerCpuUsage v w s")
  obtain y s2 where y: "getSystemCpuUsage w s1 = (y, s2)"
    by (cases "getSystemCpuUsage w s1")
  have "fst (getSystemCpuUsage w s) = fst (getSystemCpuUsage w s1)"
    by (simp add: getSystemCpuUsage_result)
  with y have "fst (getSystemCpuUsage w s) = y"
    by simp
  with c y show ?thesis
    by (simp add: sampleCpuUsage_def split: sum.splits)
qed

lemma js_nan_absorbs:
  "js_div x NaN = NaN" "js_div NaN y = NaN" "js_mul NaN y = NaN" "js_mul x NaN = NaN"
  "js_add NaN y = NaN" "js_add x NaN = NaN" "js_sub NaN y = NaN" "js_neg NaN = NaN"
  by (cases x; simp)+ (simp_all add: js_sub_def)

text \<open>
  C3, as amended. In a container, a quota file that cannot be read makes the call fail
  with that error. With a limited quota, the call fails as soon as the period file, the
  container usage file or \<open>/proc/stat\<close> cannot be read, or \<open>/proc/stat\<close> has no line
  starting with \<open>cpu\<close> and a space; the error is the one of the reader that failed.
  Content that does not parse is no error: when the quota, the period or one of the two
  usage counters is NaN and every file is read, the call completes and returns NaN.
\<close>

theorem getCpuInfo_read_failures:
  assumes "\<not> isLambdaEnvironment w" and "isContainerised w = Inr True"
    and "getCgroupsVersion w s = (cgv, s1)"
  shows "(files w (CPU_FILE_PATHS QUOTA cgv) = None \<longrightarrow>
            fst (getCpuInfo w s) = Inl (ReadFileError (CPU_FILE_PATHS QUOTA cgv)))
       \<and> (\<forall>q. fst (getCpuQuota cgv w s1) = Inr (Some q) \<longrightarrow>
            ((files w (CPU_FILE_PATHS PERIOD cgv) = None \<or>
              files w (CPU_FILE_PATHS STAT cgv) = None \<or>
              files w ''/proc/stat'' = None \<or>
              (\<exists>d. files w ''/proc/stat'' = Some d \<and>
                   \<not> list_ex (\<lambda>l. startsWith l ''cpu '') (split_nl d))) \<longrightarrow>
             (\<exists>e. fst (getCpuInfo w s) = Inl e \<and>
                  e \<in> {ReadFileError (CPU_FILE_PATHS PERIOD cgv),
                       ReadFileError (CPU_FILE_PATHS STAT cgv),
                       ReadFileError ''/proc/stat'', NoCpuLine})) \<and>
            (\<forall>period sample.
               fst (getCpuPeriod cgv w s1) = Inr period \<and>
               fst (sampleCpuUsage cgv w s1) = Inr sample \<and>
               (q = NaN \<or> period = NaN \<or> containerUsage sample = NaN \<or>
                systemUsage sample = NaN) \<longrightarrow>
               fst (getCpuInfo w s) = Inr NaN))"
proof -
  note body = getCpuInfo_containerised [OF assms]
  have quota_fail: "fst (getCpuInfo w s) = Inl (ReadFileError (CPU_FILE_PATHS QUOTA cgv))"
    if "files w (CPU_FILE_PATHS QUOTA cgv) = None"
    using that by (cases cgv) (simp_all add: body getCpuQuota_def readFile_def)
  have limited: "P" if q: "fst (getCpuQuota cgv w s1) = Inr (Some q)"
    and step: "\<And>s2. getCpuQuota cgv w s1 = (Inr (Some q), s2) \<Longrightarrow> P" for q P
    using q step by (cases "getCpuQuota cgv w s1") simp
  have fail: "\<exists>e. fst (getCpuInfo w s) = Inl e \<and>
                  e \<in> {ReadFileError (CPU_FILE_PATHS PERIOD cgv),
                       ReadFileError (CPU_FILE_PATHS STAT cgv),
                       ReadFileError ''/proc/stat'', NoCpuLine}"
    if q: "fst (getCpuQuota cgv w s1) = Inr (Some q)"
      and bad: "files w (CPU_FILE_PATHS PERIOD cgv) = None \<or>
              files w (CPU_FILE_PATHS STAT cgv) = None \<or>
              files w ''/proc/stat'' = None \<or>
              (\<exists>d. files w ''/proc/stat'' = Some d \<and>
                   \<not> list_ex (\<lambda>l. startsWith l ''cpu '') (split_nl d))"
    for q
  proof (rule limited [OF q])
    fix s2
    assume q2: "getCpuQuota cgv w s1 = (Inr (Some q), s2)"
    obtain r3 s3 where p: "getCpuPeriod cgv w s2 = (r3, s3)"
      by (cases "getCpuPeriod cgv w s2")
    obtain r4 s4 where u: "sampleCpuUsage cgv w s3 = (r4, s4)"
      by (cases "sampleCpuUsage cgv w s3")
    have r3: "r3 = fst (getCpuPeriod cgv w s2)" and r4: "r4 = fst (sampleCpuUsage cgv w s3)"
      by (simp_all add: p u)
    show ?thesis
    proof (cases "files w (CPU_FILE_PATHS PERIOD cgv)")
      case None
      then have "r3 = Inl (ReadFileError (CPU_FILE_PATHS PERIOD cgv))"
        by (simp add: r3 getCpuPeriod_result)
      then show ?thesis
        by (simp add: body q2 p)
    next
      case (Some pd)
      then obtain period where period: "r3 = Inr period"
        by (simp add: r3 getCpuPeriod_result)
      from bad Some have "files w (CPU_FILE_PATHS STAT cgv) = None \<or>
          files w ''/proc/stat'' = None \<or>
          (\<exists>d. files w ''/proc/stat'' = Some d \<and>
               \<not> list_ex (\<lambda>l. startsWith l ''cpu '') (split_nl d))"
        by simp
      then have "\<exists>e. r4 = Inl e \<and>
          e \<in> {ReadFileError (CPU_FILE_PATHS STAT cgv), ReadFileError ''/proc/stat'', NoCpuLine}"
        by (auto simp add: r4 sampleCpuUsage_result getContainerCpuUsage_result
            getSystemCpuUsage_result scan_cpu_line_missing split: option.splits sum.splits)
      then show ?thesis
        by (auto simp add: body q2 p u period)
    qed
  qed
  have nan: "fst (getCpuInfo w s) = Inr NaN"
    if q: "fst (getCpuQuota cgv w s1) = Inr (Some q)"
      and pr: "fst (getCpuPeriod cgv w s1) = Inr period"
      and sm: "fst (sampleCpuUsage cgv w s1) = Inr sample"
      and n: "q = NaN \<or> period = NaN \<or> containerUsage sample = NaN \<or>
                systemUsage sample = NaN"
    for q period sample
  proof (rule limited [OF q])
    fix s2
    assume q2: "getCpuQuota cgv w s1 = (Inr (Some q), s2)"
    obtain r3 s3 where p: "getCpuPeriod cgv w s2 = (r3, s3)"
      by (cases "getCpuPeriod cgv w s2")
    obtain r4 s4 where u: "sampleCpuUsage cgv w s3 = (r4, s4)"
      by (cases "sampleCpuUsage cgv w s3")
    have "fst (getCpuPeriod cgv w s2) = fst (getCpuPeriod cgv w s1)"
      by (simp add: getCpuPeriod_result)
    with p pr have r3: "r3 = Inr period"
      by simp
    have "fst (sampleCpuUsage cgv w s3) = fst (sampleCpuUsage cgv w s1)"
      by (simp add: sampleCpuUsage_result getContainerCpuUsage_result getSystemCpuUsage_result
          split: option.splits sum.splits)
    with u sm have r4: "r4 = Inr sample"
      by simp
    from n show ?thesis
      by (auto simp add: body q2 p u r3 r4 js_nan_absorbs)
  qed
  from quota_fail fail nan show ?thesis
    by blast
qed

lemma initial_version_v2:
  "getCgroupsVersion (cgroup_v2_host m st pst) initial_state =
     (V2, initial_state\<lparr>cgroupsVersion := Some V2,
            fs_calls := [Access ''/sys/fs/cgroup/memory/'']\<rparr>)"
  by (simp add: getCgroupsVersion_def access_def cgroup_v2_host_env initial_state_def)

lemma initial_version_v1:
  "getCgroupsVersion (cgroup_v1_host q p u st) initial_state =
     (V1, initial_state\<lparr>cgroupsVersion := Some V1,
            fs_calls := [Access ''/sys/fs/cgroup/memory/'']\<rparr>)"
  by (simp add: getCgroupsVersion_def access_def cgroup_v1_host_env initial_state_def)

lemma missing_cpu_line_quota:
  "fst (getCpuQuota V2 missing_cpu_line s) = Inr (Some (Num 200000))"
  by (simp add: reader_defs missing_cpu_line_def cgroup_v2_host_def js_string_defs
      js_number_defs)

lemma missing_cpu_line_stat:
  "files missing_cpu_line ''/proc/stat'' =
     Some (file_of_lines [''cpu0 25 0 25 50 0 0 0 0 0 0'', ''intr 12345''])"
  "\<not> list_ex (\<lambda>l. startsWith l ''cpu '')
       (split_nl (file_of_lines [''cpu0 25 0 25 50 0 0 0 0 0 0'', ''intr 12345'']))"
  by (simp_all add: missing_cpu_line_def cgroup_v2_host_def js_string_defs)

theorem getCpuInfo_read_failures_witness:
  "fst (getCpuQuota V2 missing_cpu_line
          (initial_state\<lparr>cgroupsVersion := Some V2,
             fs_calls := [Access ''/sys/fs/cgroup/memory/'']\<rparr>)) = Inr (Some (Num 200000))
   \<and> files missing_cpu_line ''/proc/stat'' =
       Some (file_of_lines [''cpu0 25 0 25 50 0 0 0 0 0 0'', ''intr 12345''])
   \<and> \<not> list_ex (\<lambda>l. startsWith l ''cpu '')
         (split_nl (file_of_lines [''cpu0 25 0 25 50 0 0 0 0 0 0'', ''intr 12345'']))
   \<and> (\<exists>e. fst (getCpuInfo missing_cpu_line initial_state) = Inl e \<and>
          e \<in> {ReadFileError (CPU_FILE_PATHS PERIOD V2), ReadFileError (CPU_FILE_PATHS STAT V2),
               ReadFileError ''/proc/stat'', NoCpuLine})"
proof -
  have e: "\<not> isLambdaEnvironment missing_cpu_line" "isContainerised missing_cpu_line = Inr True"
    and v: "getCgroupsVersion missing_cpu_line initial_state =
      (V2, initial_state\<lparr>cgroupsVersion := Some V2,
             fs_calls := [Access ''/sys/fs/cgroup/memory/'']\<rparr>)"
    by (simp_all add: missing_cpu_line_def cgroup_v2_host_env initial_version_v2)
  from getCpuInfo_read_failures [OF e v] missing_cpu_line_quota missing_cpu_line_stat
  show ?thesis
    by blast
qed

lemma bad_quota_readers:
  "getCpuQuota V1 bad_quota s =
     (Inr (Some NaN),
      s\<lparr>fs_calls := fs_calls s @ [ReadFile ''/sys/fs/cgroup/cpu/cpu.cfs_quota_us'']\<rparr>)"
  "getCpuPeriod V1 bad_quota s =
     (Inr (Num 100000),
      s\<lparr>fs_calls := fs_calls s @ [ReadFile ''/sys/fs/cgroup/cpu/cpu.cfs_period_us'']\<rparr>)"
  "sampleCpuUsage V1 bad_quota s =
     (Inr \<lparr>containerUsage = Num 1000000000, systemUsage = Num 4000000000\<rparr>,
      s\<lparr>fs_calls := fs_calls s @ [ReadFile ''/sys/fs/cgroup/cpuacct/cpuacct.usage'',
             ReadFile ''/proc/stat'']\<rparr>)"
  by (simp_all add: reader_defs bad_quota_def cgroup_v1_host_def js_string_defs js_number_defs)

lemma missing_usage_key_readers:
  "getCpuQuota V2 missing_usage_key s =
     (Inr (Some (Num 200000)),
      s\<lparr>fs_calls := fs_calls s @ [ReadFile ''/sys/fs/cgroup/cpu.max'']\<rparr>)"
  "getCpuPeriod V2 missing_usage_key s =
     (Inr (Num 100000),
      s\<lparr>fs_calls := fs_calls s @ [ReadFile ''/sys/fs/cgroup/cpu.max'']\<rparr>)"
  "getContainerCpuUsage V2 missing_usage_key s =
     (Inr (Num 0), s\<lparr>fs_calls := fs_calls s @ [ReadFile ''/sys/fs/cgroup/cpu.stat'']\<rparr>)"
  "getSystemCpuUsage missing_usage_key s =
     (Inr (Num 4000000000), s\<lparr>fs_calls := fs_calls s @ [ReadFile ''/proc/stat'']\<rparr>)"
  by (simp_all add: reader_defs missing_usage_key_def cgroup_v2_host_def js_string_defs
      js_number_defs)

text \<open>
  C3, as stated, fails. A V1 quota file holding \<open>abc\<close> parses to NaN, and the call
  completes with NaN. A V2 \<open>cpu.stat\<close> without the key \<open>usage_usec\<close> gives a container
  usage of zero, and the call completes with \<open>0\<close>.
\<close>

theorem getCpuInfo_unparseable_no_error:
  "parseInt (Some (trim (file_of_lines [''abc'']))) = NaN
   \<and> fst (getCpuInfo bad_quota initial_state) = Inr NaN
   \<and> fst (getContainerCpuUsage V2 missing_usage_key initial_state) = Inr (Num 0)
   \<and> fst (getCpuInfo missing_usage_key initial_state) = Inr (Num 0)"
proof -
  have p: "parseInt (Some (trim (file_of_lines [''abc'']))) = NaN"
    by (simp add: js_string_defs js_number_defs)
  have e1: "\<not> isLambdaEnvironment bad_quota" "isContainerised bad_quota = Inr True"
    and v1: "getCgroupsVersion bad_quota initial_state =
      (V1, initial_state\<lparr>cgroupsVersion := Some V1,
             fs_calls := [Access ''/sys/fs/cgroup/memory/'']\<rparr>)"
    by (simp_all add: bad_quota_def cgroup_v1_host_env initial_version_v1)
  have b: "fst (getCpuInfo bad_quota initial_state) = Inr NaN"
    by (simp add: getCpuInfo_containerised [OF e1 v1] bad_quota_readers js_nan_absorbs)
  have e2: "\<not> isLambdaEnvironment missing_usage_key"
    "isContainerised missing_usage_key = Inr True"
    and n: "length (cpus missing_usage_key) = 4"
    and v2: "getCgroupsVersion missing_usage_key initial_state =
      (V2, initial_state\<lparr>cgroupsVersion := Some V2,
             fs_calls := [Access ''/sys/fs/cgroup/memory/'']\<rparr>)"
    by (simp_all add: missing_usage_key_def cgroup_v2_host_env initial_version_v2
        bare_metal_def)
  have m: "fst (getCpuInfo missing_usage_key initial_state) = Inr (Num 0)"
    by (simp add: getCpuInfo_containerised [OF e2 v2] missing_usage_key_readers
        sampleCpuUsage_def n js_sub_def)
      (simp add: initial_state_def)
  show ?thesis
    by (simp add: p b m missing_usage_key_readers)
qed

section \<open>The tick of the local event manager\<close>

lemma createCpuInfo_state: "snd (createCpuInfo r w s) = snd (getCpuInfo w s)"
  by (simp add: createCpuInfo_def split: prod.splits sum.splits)

lemma createCpuInfo_result:
  "fst (createCpuInfo r w s) =
     (case fst (getCpuInfo w s) of
        Inr u \<Rightarrow>
          ([''cpuCurrentUsage'' \<mapsto> VNum (js_mul u (Num 100)),
            ''isCpuOverloaded'' \<mapsto> VBool (js_gt u r)], [])
      | Inl e \<Rightarrow> (Map.empty, [LogException e ''Cpu snapshot failed.'']))"
  by (simp add: createCpuInfo_def split: prod.splits sum.splits)

lemma emitSystemInfoEvent_unfold:
  "emitSystemInfoEvent r w s =
     (snd (fst (createCpuInfo r w s)) @ snd (createMemoryInfo w) @
        [Emit ([''createdAt'' \<mapsto> VDate (now w)] ++ fst (fst (createCpuInfo r w s)) ++
                 fst (createMemoryInfo w)),
         IntervalCallback],
      snd (getCpuInfo w s))"
proof -
  obtain cpu log1 s' where c: "createCpuInfo r w s = ((cpu, log1), s')"
    by (cases "createCpuInfo r w s") auto
  obtain mem log2 where m: "createMemoryInfo w = (mem, log2)"
    by (cases "createMemoryInfo w")
  from c have "s' = snd (getCpuInfo w s)"
    using createCpuInfo_state [of r w s] by simp
  with c m show ?thesis
    by (simp add: emitSystemInfoEvent_def createSystemInfo_def)
qed

text \<open>
  C7. Whatever the two samplers do, a tick ends by emitting one snapshot and calling the
  interval callback, and no error leaves it: the calls of the logger and of the emitter are
  taken to return. The snapshot holds \<open>createdAt\<close>; it holds the two CPU fields exactly
  when the CPU sampler returned a value and the memory field exactly when the memory
  sampler did, each whatever the outcome of the other; a failure is logged and adds no
  field. The state after the tick is the one the CPU sampler left.
\<close>

theorem emitSystemInfoEvent_partial_snapshot:
  "\<exists>info logged.
     emitSystemInfoEvent r w s = (logged @ [Emit info, IntervalCallback], snd (getCpuInfo w s))
     \<and> info ''createdAt'' = Some (VDate (now w))
     \<and> (case fst (getCpuInfo w s) of
           Inl e \<Rightarrow> info ''cpuCurrentUsage'' = None \<and> info ''isCpuOverloaded'' = None
         | Inr u \<Rightarrow>
             info ''cpuCurrentUsage'' = Some (VNum (js_mul u (Num 100))) \<and>
             info ''isCpuOverloaded'' = Some (VBool (js_gt u r)))
     \<and> (case getMemoryInfo w of
           Inl e \<Rightarrow> info ''memCurrentBytes'' = None
         | Inr m \<Rightarrow>
             info ''memCurrentBytes'' =
               Some (VNum (js_add (mainProcessBytes m) (childProcessesBytes m))))
     \<and> dom info \<subseteq> {''createdAt'', ''cpuCurrentUsage'', ''isCpuOverloaded'', ''memCurrentBytes''}
     \<and> logged =
         (case fst (getCpuInfo w s) of
            Inl e \<Rightarrow> [LogException e ''Cpu snapshot failed.'']
          | Inr u \<Rightarrow> []) @
         (case getMemoryInfo w of
            Inl e \<Rightarrow> [LogException e ''Memory snapshot failed.'']
          | Inr m \<Rightarrow> [])"
proof -
  let ?cpu = "fst (fst (createCpuInfo r w s))"
  let ?mem = "fst (createMemoryInfo w)"
  let ?info = "[''createdAt'' \<mapsto> VDate (now w)] ++ ?cpu ++ ?mem"
  let ?logged = "snd (fst (createCpuInfo r w s)) @ snd (createMemoryInfo w)"
  have emitted: "emitSystemInfoEvent r w s =
      (?logged @ [Emit ?info, IntervalCallback], snd (getCpuInfo w s))"
    by (simp add: emitSystemInfoEvent_unfold)
  have created: "?info ''createdAt'' = Some (VDate (now w))"
    by (simp add: createCpuInfo_result createMemoryInfo_def map_add_def
        split: sum.splits)
  have cpu: "(case fst (getCpuInfo w s) of
           Inl e \<Rightarrow> ?info ''cpuCurrentUsage'' = None \<and> ?info ''isCpuOverloaded'' = None
         | Inr u \<Rightarrow>
             ?info ''cpuCurrentUsage'' = Some (VNum (js_mul u (Num 100))) \<and>
             ?info ''isCpuOverloaded'' = Some (VBool (js_gt u r)))"
    by (simp add: createCpuInfo_result createMemoryInfo_def map_add_def
        split: sum.splits)
  have mem: "(case getMemoryInfo w of
           Inl e \<Rightarrow> ?info ''memCurrentBytes'' = None
         | Inr m \<Rightarrow>
             ?info ''memCurrentBytes'' =
               Some (VNum (js_add (mainProcessBytes m) (childProcessesBytes m))))"
    by (simp add: createCpuInfo_result createMemoryInfo_def map_add_def
        split: sum.splits)
  have keys: "dom ?info \<subseteq>
      {''createdAt'', ''cpuCurrentUsage'', ''isCpuOverloaded'', ''memCurrentBytes''}"
    by (auto simp add: createCpuInfo_result createMemoryInfo_def
        split: sum.splits if_splits)
  have logged: "?logged =
         (case fst (getCpuInfo w s) of
            Inl e \<Rightarrow> [LogException e ''Cpu snapshot failed.'']
          | Inr u \<Rightarrow> []) @
         (case getMemoryInfo w of
            Inl e \<Rightarrow> [LogException e ''Memory snapshot failed.'']
          | Inr m \<Rightarrow> [])"
    by (simp add: createCpuInfo_result createMemoryInfo_def split: sum.splits)
  show ?thesis
    by (rule exI [of _ ?info], rule exI [of _ ?logged])
      (simp only: emitted created cpu mem keys logged [symmetric] simp_thms)
qed

lemma missing_cpu_line_call: "fst (getCpuInfo missing_cpu_line initial_state) = Inl NoCpuLine"
proof -
  have e: "\<not> isLambdaEnvironment missing_cpu_line" "isContainerised missing_cpu_line = Inr True"
    and v: "getCgroupsVersion missing_cpu_line initial_state =
      (V2, initial_state\<lparr>cgroupsVersion := Some V2,
             fs_calls := [Access ''/sys/fs/cgroup/memory/'']\<rparr>)"
    by (simp_all add: missing_cpu_line_def cgroup_v2_host_env initial_version_v2)
  have r: "getCpuQuota V2 missing_cpu_line s =
     (Inr (Some (Num 200000)),
      s\<lparr>fs_calls := fs_calls s @ [ReadFile ''/sys/fs/cgroup/cpu.max'']\<rparr>)"
    "getCpuPeriod V2 missing_cpu_line s =
     (Inr (Num 100000),
      s\<lparr>fs_calls := fs_calls s @ [ReadFile ''/sys/fs/cgroup/cpu.max'']\<rparr>)"
    "sampleCpuUsage V2 missing_cpu_line s =
     (Inl NoCpuLine,
      s\<lparr>fs_calls := fs_calls s @ [ReadFile ''/sys/fs/cgroup/cpu.stat'',
             ReadFile ''/proc/stat'']\<rparr>)" for s
    by (simp_all add: reader_defs missing_cpu_line_def cgroup_v2_host_def js_string_defs
        js_number_defs)
  show ?thesis
    by (simp add: getCpuInfo_containerised [OF e v] r)
qed

theorem emitSystemInfoEvent_partial_snapshot_witness:
  "(\<exists>info logged.
      emitSystemInfoEvent (Num (95 / 100)) missing_cpu_line initial_state =
        (logged @ [Emit info, IntervalCallback],
         snd (getCpuInfo missing_cpu_line initial_state))
      \<and> fst (getCpuInfo missing_cpu_line initial_state) = Inl NoCpuLine
      \<and> info ''createdAt'' = Some (VDate 1700000000000)
      \<and> info ''cpuCurrentUsage'' = None
      \<and> info ''isCpuOverloaded'' = None
      \<and> info ''memCurrentBytes'' = Some (VNum (Num 1024))
      \<and> logged = [LogException NoCpuLine ''Cpu snapshot failed.''])
   \<and> (\<exists>info logged.
      emitSystemInfoEvent (Num (95 / 100)) no_memory_info initial_state =
        (logged @ [Emit info, IntervalCallback], initial_state)
      \<and> info ''createdAt'' = Some (VDate 1700000000000)
      \<and> info ''cpuCurrentUsage'' = Some (VNum (Num 50))
      \<and> info ''isCpuOverloaded'' = Some (VBool False)
      \<and> info ''memCurrentBytes'' = None
      \<and> logged = [LogException (Rejected ''memory'') ''Memory snapshot failed.''])"
proof -
  have m1: "getMemoryInfo missing_cpu_line =
      Inr \<lparr>mainProcessBytes = Num 1000, childProcessesBytes = Num 24\<rparr>"
    and t1: "now missing_cpu_line = 1700000000000"
    by (simp_all add: missing_cpu_line_def cgroup_v2_host_def bare_metal_def)
  have "\<not> isLambdaEnvironment no_memory_info" and "isContainerised no_memory_info = Inr False"
    and c2: "getCurrentCpuTicks (cpus no_memory_info) = Num (1 / 2)"
    and m2: "getMemoryInfo no_memory_info = Inl (Rejected ''memory'')"
    and t2: "now no_memory_info = 1700000000000"
    by (simp_all add: no_memory_info_def bare_metal_ticks)
      (simp_all add: bare_metal_def isLambdaEnvironment_def)
  then have g2: "getCpuInfo no_memory_info initial_state = (Inr (Num (1 / 2)), initial_state)"
    by (simp add: getCpuInfo_not_containerised)
  from emitSystemInfoEvent_partial_snapshot
    [of "Num (95 / 100)" missing_cpu_line initial_state]
  have first: "\<exists>info logged.
      emitSystemInfoEvent (Num (95 / 100)) missing_cpu_line initial_state =
        (logged @ [Emit info, IntervalCallback],
         snd (getCpuInfo missing_cpu_line initial_state))
      \<and> fst (getCpuInfo missing_cpu_line initial_state) = Inl NoCpuLine
      \<and> info ''createdAt'' = Some (VDate 1700000000000)
      \<and> info ''cpuCurrentUsage'' = None
      \<and> info ''isCpuOverloaded'' = None
      \<and> info ''memCurrentBytes'' = Some (VNum (Num 1024))
      \<and> logged = [LogException NoCpuLine ''Cpu snapshot failed.'']"
    by (simp add: missing_cpu_line_call m1 t1) (elim exE conjE, intro exI conjI, assumption+)
  from emitSystemInfoEvent_partial_snapshot
    [of "Num (95 / 100)" no_memory_info initial_state]
  have second: "\<exists>info logged.
      emitSystemInfoEvent (Num (95 / 100)) no_memory_info initial_state =
        (logged @ [Emit info, IntervalCallback], initial_state)
      \<and> info ''createdAt'' = Some (VDate 1700000000000)
      \<and> info ''cpuCurrentUsage'' = Some (VNum (Num 50))
      \<and> info ''isCpuOverloaded'' = Some (VBool False)
      \<and> info ''memCurrentBytes'' = None
      \<and> logged = [LogException (Rejected ''memory'') ''Memory snapshot failed.'']"
    by (simp add: g2 m2 t2) (elim exE conjE, intro exI conjI, assumption+)
  from first second show ?thesis
    by (rule conjI)
qed

section \<open>The weighted average\<close>

lemma weight_sum_zip:
  "length vs = length ws \<Longrightarrow> (\<Sum>(v, wt)\<leftarrow>zip vs ws. wt) = sum_list (ws :: real list)"
  by (induction vs ws rule: list_induct2) simp_all

lemma weight_sum_zero:
  "\<forall>x\<in>set ws. x = (0::real) \<Longrightarrow> (\<Sum>(v, wt)\<leftarrow>zip vs ws. wt) = 0"
  by (induction vs ws rule: list_induct2') simp_all

text \<open>
  The expectations of the test \<open>weightedAvg()\<close> of the sources hold of the definition.
\<close>

lemma weightedAvg_tests:
  "weightedAvg [10, 10, 10] [1, 1, 1] = Num 10"
  "weightedAvg [5, 10, 15] [1, 1, 1] = Num 10"
  "weightedAvg [10, 10, 10] [1 / 2, 1, 3 / 2] = Num 10"
  "weightedAvg [29, 35, 89] [13, 91, 3] = Num ((29 * 13 + 35 * 91 + 89 * 3) / (13 + 91 + 3))"
  "weightedAvg [] [] = NaN"
  "weightedAvg [1] [0] = NaN"
  "weightedAvg [] [1] = NaN"
  by (simp_all add: weightedAvg_def)

text \<open>
  C9. For value and weight vectors of one length, not empty, whose weights sum to a
  positive number, \<open>weightedAvg\<close> is the sum of the products over the sum of the weights.
  When a vector is empty or every weight is zero, it is NaN, which is not the number zero.
\<close>

theorem weightedAvg_formula:
  "(length arrValues = length arrWeights \<and> arrValues \<noteq> [] \<and> 0 < sum_list arrWeights \<longrightarrow>
      weightedAvg arrValues arrWeights =
        Num (sum_list (map2 (*) arrValues arrWeights) / sum_list arrWeights))
   \<and> (arrValues = [] \<or> arrWeights = [] \<or> (\<forall>x\<in>set arrWeights. x = 0) \<longrightarrow>
      weightedAvg arrValues arrWeights = NaN \<and> weightedAvg arrValues arrWeights \<noteq> Num 0)"
proof (rule conjI; rule impI)
  assume "length arrValues = length arrWeights \<and> arrValues \<noteq> [] \<and> 0 < sum_list arrWeights"
  then show "weightedAvg arrValues arrWeights =
        Num (sum_list (map2 (*) arrValues arrWeights) / sum_list arrWeights)"
    by (simp add: weightedAvg_def weight_sum_zip)
next
  assume "arrValues = [] \<or> arrWeights = [] \<or> (\<forall>x\<in>set arrWeights. x = 0)"
  then have "(\<Sum>(v, wt)\<leftarrow>zip arrValues arrWeights. wt) = 0"
    using weight_sum_zero [of arrWeights arrValues] by auto
  then show "weightedAvg arrValues arrWeights = NaN \<and> weightedAvg arrValues arrWeights \<noteq> Num 0"
    by (simp add: weightedAvg_def)
qed

theorem weightedAvg_formula_witness:
  "weightedAvg [29, 35, 89] [13, 91, 3] = Num ((29 * 13 + 35 * 91 + 89 * 3) / (13 + 91 + 3))
   \<and> weightedAvg [10, 10, 10] [1 / 2, 1, 3 / 2] = Num 10
   \<and> weightedAvg [] [] = NaN
   \<and> weightedAvg [1] [0] = NaN
   \<and> weightedAvg [] [1] = NaN
   \<and> weightedAvg [1] [0] \<noteq> Num 0"
  using weightedAvg_formula [of "[29, 35, 89]" "[13, 91, 3]"]
    weightedAvg_formula [of "[10, 10, 10]" "[1 / 2, 1, 3 / 2]"]
    weightedAvg_formula [of "[]" "[]"]
    weightedAvg_formula [of "[1]" "[0]"]
    weightedAvg_formula [of "[]" "[1]"]
  by simp

section \<open>The frame of the previous sample\<close>

lemma getCpuQuota_result:
  "fst (getCpuQuota v w s) =
     (case files w (CPU_FILE_PATHS QUOTA v) of
        None \<Rightarrow> Inl (ReadFileError (CPU_FILE_PATHS QUOTA v))
      | Some d \<Rightarrow>
          Inr (case v of
                 V1 \<Rightarrow> if parseInt (Some (trim d)) = Num (- 1) then None
                       else Some (parseInt (Some (trim d)))
               | V2 \<Rightarrow> if nth_opt (split_ws (trim d)) 0 = Some ''max'' then None
                       else Some (parseInt (nth_opt (split_ws (trim d)) 0))))"
  by (cases v) (simp_all add: getCpuQuota_def readFile_def Let_def split: option.splits)

lemma reader_results_any_state:
  "fst (getCpuQuota v w s) = fst (getCpuQuota v w t)"
  "fst (getCpuPeriod v w s) = fst (getCpuPeriod v w t)"
  "fst (sampleCpuUsage v w s) = fst (sampleCpuUsage v w t)"
  by (simp_all add: getCpuQuota_result getCpuPeriod_result sampleCpuUsage_result
      getContainerCpuUsage_result getSystemCpuUsage_result split: option.splits sum.splits)

text \<open>
  The call in terms of the results of the readers alone: the readers change nothing but the
  list of file-system calls, and their results do not depend on the state.
\<close>

lemma getCpuInfo_containerised_results:
  assumes "\<not> isLambdaEnvironment w" and "isContainerised w = Inr True"
    and "getCgroupsVersion w s = (cgv, s1)"
  shows "fst (getCpuInfo w s) =
     (case fst (getCpuQuota cgv w s1) of
        Inl e \<Rightarrow> Inl e
      | Inr None \<Rightarrow> Inr (getCurrentCpuTicks (cpus w))
      | Inr (Some quota) \<Rightarrow>
          (case fst (getCpuPeriod cgv w s1) of
             Inl e \<Rightarrow> Inl e
           | Inr period \<Rightarrow>
               (case fst (sampleCpuUsage cgv w s1) of
                  Inl e \<Rightarrow> Inl e
                | Inr sample \<Rightarrow>
                    Inr (js_div
                           (js_mul
                              (js_mul
                                 (js_div
                                    (js_sub (containerUsage sample)
                                       (containerUsage (previousSample s)))
                                    (js_sub (systemUsage sample)
                                       (systemUsage (previousSample s))))
                                 (Num (real (length (cpus w)))))
                              (Num 100))
                           (js_div quota period)))))"
    and "previousSample (snd (getCpuInfo w s)) =
     (case fst (getCpuQuota cgv w s1) of
        Inl e \<Rightarrow> previousSample s
      | Inr None \<Rightarrow> previousSample s
      | Inr (Some quota) \<Rightarrow>
          (case fst (getCpuPeriod cgv w s1) of
             Inl e \<Rightarrow> previousSample s
           | Inr period \<Rightarrow>
               (case fst (sampleCpuUsage cgv w s1) of
                  Inl e \<Rightarrow> previousSample s
                | Inr sample \<Rightarrow> sample)))"
proof -
  obtain r2 s2 where q: "getCpuQuota cgv w s1 = (r2, s2)"
    by (cases "getCpuQuota cgv w s1")
  obtain r3 s3 where p: "getCpuPeriod cgv w s2 = (r3, s3)"
    by (cases "getCpuPeriod cgv w s2")
  obtain r4 s4 where u: "sampleCpuUsage cgv w s3 = (r4, s4)"
    by (cases "sampleCpuUsage cgv w s3")
  have r3: "fst (getCpuPeriod cgv w s1) = r3"
    using reader_results_any_state(2) [of cgv w s1 s2] p by simp
  have r4: "fst (sampleCpuUsage cgv w s1) = r4"
    using reader_results_any_state(3) [of cgv w s1 s3] u by simp
  have "previousSample s1 = previousSample s"
    using getCgroupsVersion_previousSample [of w s] assms(3) by simp
  moreover have "previousSample s2 = previousSample s1"
    using getCpuQuota_state [of cgv w s1] q by simp
  moreover have "previousSample s3 = previousSample s2"
    using getCpuPeriod_state [of cgv w s2] p by simp
  moreover have "previousSample s4 = previousSample s3"
    using sampleCpuUsage_state [of cgv w s3] u by simp
  ultimately have prev: "previousSample s2 = previousSample s"
    "previousSample s3 = previousSample s" "previousSample s4 = previousSample s"
    by simp_all
  note body = getCpuInfo_containerised [OF assms]
  show "fst (getCpuInfo w s) =
     (case fst (getCpuQuota cgv w s1) of
        Inl e \<Rightarrow> Inl e
      | Inr None \<Rightarrow> Inr (getCurrentCpuTicks (cpus w))
      | Inr (Some quota) \<Rightarrow>
          (case fst (getCpuPeriod cgv w s1) of
             Inl e \<Rightarrow> Inl e
           | Inr period \<Rightarrow>
               (case fst (sampleCpuUsage cgv w s1) of
                  Inl e \<Rightarrow> Inl e
                | Inr sample \<Rightarrow>
                    Inr (js_div
                           (js_mul
                              (js_mul
                                 (js_div
                                    (js_sub (containerUsage sample)
                                       (containerUsage (previousSample s)))
                                    (js_sub (systemUsage sample)
                                       (systemUsage (previousSample s))))
                                 (Num (real (length (cpus w)))))
                              (Num 100))
                           (js_div quota period)))))"
    by (simp add: body q p u r3 r4 prev split: sum.splits option.splits)
  show "previousSample (snd (getCpuInfo w s)) =
     (case fst (getCpuQuota cgv w s1) of
        Inl e \<Rightarrow> previousSample s
      | Inr None \<Rightarrow> previousSample s
      | Inr (Some quota) \<Rightarrow>
          (case fst (getCpuPeriod cgv w s1) of
             Inl e \<Rightarrow> previousSample s
           | Inr period \<Rightarrow>
               (case fst (sampleCpuUsage cgv w s1) of
                  Inl e \<Rightarrow> previousSample s
                | Inr sample \<Rightarrow> sample)))"
    by (simp add: body q p u r3 r4 prev split: sum.splits option.splits)
qed

lemma getCpuInfo_other_branches:
  assumes "isLambdaEnvironment w \<or> isContainerised w \<noteq> Inr True"
  shows "snd (getCpuInfo w s) = s"
  using assms by (auto simp add: getCpuInfo_def split: sum.splits bool.splits)

lemma not_samples_keeps:
  assumes "\<not> samples w s"
  shows "previousSample (snd (getCpuInfo w s)) = previousSample s"
proof (cases "isLambdaEnvironment w \<or> isContainerised w \<noteq> Inr True")
  case True
  then show ?thesis
    by (simp add: getCpuInfo_other_branches)
next
  case False
  then have e: "\<not> isLambdaEnvironment w" "isContainerised w = Inr True"
    by simp_all
  obtain cgv s1 where v: "getCgroupsVersion w s = (cgv, s1)"
    by (cases "getCgroupsVersion w s")
  note res = getCpuInfo_containerised_results [OF e v]
  from assms e v have
    "(case fst (getCpuQuota cgv w s1) of Inr (Some q) \<Rightarrow> False | _ \<Rightarrow> True) \<or>
     (case fst (getCpuInfo w s) of Inr u \<Rightarrow> False | Inl e \<Rightarrow> True)"
    by (auto simp add: samples_def split: sum.splits option.splits)
  then show ?thesis
    by (auto simp add: res split: sum.splits option.splits)
qed

lemma samples_stores:
  assumes "samples w s"
  shows "fst (sampleCpuUsage (fst (getCgroupsVersion w s)) w s) =
           Inr (previousSample (snd (getCpuInfo w s)))"
proof -
  from assms have e: "\<not> isLambdaEnvironment w" "isContainerised w = Inr True"
    by (simp_all add: samples_def)
  obtain cgv s1 where v: "getCgroupsVersion w s = (cgv, s1)"
    by (cases "getCgroupsVersion w s")
  note res = getCpuInfo_containerised_results [OF e v]
  have same: "fst (sampleCpuUsage cgv w s) = fst (sampleCpuUsage cgv w s1)"
    by (rule reader_results_any_state)
  from assms v have "\<exists>q. fst (getCpuQuota cgv w s1) = Inr (Some q)"
    and "\<exists>u. fst (getCpuInfo w s) = Inr u"
    by (auto simp add: samples_def split: sum.splits option.splits)
  then show ?thesis
    by (auto simp add: res v same split: sum.splits option.splits)
qed

lemma none_samples_keeps:
  "none_samples ws s \<Longrightarrow> previousSample (run ws s) = previousSample s"
  by (induction ws arbitrary: s) (simp_all add: not_samples_keeps)

text \<open>
  C10, as amended. The previous sample is overwritten, with the sample just read, by the
  calls that go through the branch of a container with a limited quota and return a value;
  every other call, whether it takes the serverless, the bare-metal or the unlimited-quota
  branch or fails, leaves it as it was. Through any run of such other calls it keeps its
  value (zero from the initial state), and the next call with a limited quota takes its
  deltas against the sample stored before the run.
\<close>

theorem previousSample_frame:
  "(samples w s \<longrightarrow>
      fst (sampleCpuUsage (fst (getCgroupsVersion w s)) w s) =
        Inr (previousSample (snd (getCpuInfo w s))))
   \<and> (\<not> samples w s \<longrightarrow> previousSample (snd (getCpuInfo w s)) = previousSample s)
   \<and> (isLambdaEnvironment w \<or> isContainerised w \<noteq> Inr True \<or>
       fst (getCpuQuota (fst (getCgroupsVersion w s)) w s) = Inr None \<longrightarrow> \<not> samples w s)
   \<and> (\<forall>ws. none_samples ws s \<longrightarrow> previousSample (run ws s) = previousSample s)
   \<and> (\<forall>ws w2 cgv t1 quota period sample.
         none_samples ws s \<and>
         \<not> isLambdaEnvironment w2 \<and> isContainerised w2 = Inr True \<and>
         getCgroupsVersion w2 (run ws s) = (cgv, t1) \<and>
         fst (getCpuQuota cgv w2 t1) = Inr (Some quota) \<and>
         fst (getCpuPeriod cgv w2 t1) = Inr period \<and>
         fst (sampleCpuUsage cgv w2 t1) = Inr sample \<longrightarrow>
         fst (getCpuInfo w2 (run ws s)) =
           Inr (js_div
                  (js_mul
                     (js_mul
                        (js_div
                           (js_sub (containerUsage sample) (containerUsage (previousSample s)))
                           (js_sub (systemUsage sample) (systemUsage (previousSample s))))
                        (Num (real (length (cpus w2)))))
                     (Num 100))
                  (js_div quota period)))"
proof -
  have other: "\<not> samples w s"
    if "isLambdaEnvironment w \<or> isContainerised w \<noteq> Inr True \<or>
       fst (getCpuQuota (fst (getCgroupsVersion w s)) w s) = Inr None"
  proof -
    obtain cgv s1 where v: "getCgroupsVersion w s = (cgv, s1)"
      by (cases "getCgroupsVersion w s")
    have "fst (getCpuQuota cgv w s) = fst (getCpuQuota cgv w s1)"
      by (rule reader_results_any_state)
    with that v show ?thesis
      by (auto simp add: samples_def)
  qed
  have later: "fst (getCpuInfo w2 (run ws s)) =
           Inr (js_div
                  (js_mul
                     (js_mul
                        (js_div
                           (js_sub (containerUsage sample) (containerUsage (previousSample s)))
                           (js_sub (systemUsage sample) (systemUsage (previousSample s))))
                        (Num (real (length (cpus w2)))))
                     (Num 100))
                  (js_div quota period))"
    if "none_samples ws s" and e: "\<not> isLambdaEnvironment w2" "isContainerised w2 = Inr True"
      and v: "getCgroupsVersion w2 (run ws s) = (cgv, t1)"
      and r: "fst (getCpuQuota cgv w2 t1) = Inr (Some quota)"
        "fst (getCpuPeriod cgv w2 t1) = Inr period"
        "fst (sampleCpuUsage cgv w2 t1) = Inr sample"
    for ws w2 cgv t1 quota period sample
    using none_samples_keeps [OF that(1)]
    by (simp add: getCpuInfo_containerised_results(1) [OF e v] r)
  from other later show ?thesis
    by (simp add: samples_stores not_samples_keeps none_samples_keeps)
qed

lemma unlimited_v1_call:
  assumes "cgroupsVersion s = Some V1"
  shows "getCpuInfo unlimited_v1 s =
     (Inr (Num (1 / 2)),
      s\<lparr>fs_calls := fs_calls s @ [ReadFile ''/sys/fs/cgroup/cpu/cpu.cfs_quota_us'']\<rparr>)"
    and "\<not> samples unlimited_v1 s"
proof -
  have e: "\<not> isLambdaEnvironment unlimited_v1" "isContainerised unlimited_v1 = Inr True"
    and t: "getCurrentCpuTicks (cpus unlimited_v1) = Num (1 / 2)"
    by (simp_all add: unlimited_v1_def cgroup_v1_host_env)
      (simp add: cgroup_v1_host_def bare_metal_ticks)
  have v: "getCgroupsVersion unlimited_v1 s = (V1, s)"
    using assms by (rule getCgroupsVersion_cached)
  have q: "getCpuQuota V1 unlimited_v1 s =
     (Inr None, s\<lparr>fs_calls := fs_calls s @ [ReadFile ''/sys/fs/cgroup/cpu/cpu.cfs_quota_us'']\<rparr>)"
    by (simp add: reader_defs unlimited_v1_def cgroup_v1_host_def js_string_defs js_number_defs)
  show "getCpuInfo unlimited_v1 s =
     (Inr (Num (1 / 2)),
      s\<lparr>fs_calls := fs_calls s @ [ReadFile ''/sys/fs/cgroup/cpu/cpu.cfs_quota_us'']\<rparr>)"
    by (simp add: getCpuInfo_containerised [OF e v] q t)
  show "\<not> samples unlimited_v1 s"
    by (simp add: samples_def v q)
qed

lemma host_calls:
  "getCpuInfo bare_metal s = (Inr (Num (1 / 2)), s)"
  "getCpuInfo lambda_host s = (Inr (Num (1 / 2)), s)"
  "\<not> samples bare_metal s"
  "\<not> samples lambda_host s"
proof -
  have b: "\<not> isLambdaEnvironment bare_metal" "isContainerised bare_metal = Inr False"
    and l: "isLambdaEnvironment lambda_host"
    and c: "cpus lambda_host = cpus bare_metal"
    by (simp_all add: lambda_host_def bare_metal_def isLambdaEnvironment_def)
  show "getCpuInfo bare_metal s = (Inr (Num (1 / 2)), s)"
    by (simp add: getCpuInfo_not_containerised b bare_metal_ticks)
  show "getCpuInfo lambda_host s = (Inr (Num (1 / 2)), s)"
    by (simp add: getCpuInfo_lambda l c bare_metal_ticks)
  show "\<not> samples bare_metal s" "\<not> samples lambda_host s"
    by (simp_all add: samples_def b l)
qed

lemma tick_no_cpu_line_readers:
  "getCpuQuota V1 tick_no_cpu_line s =
     (Inr (Some (Num 200000)),
      s\<lparr>fs_calls := fs_calls s @ [ReadFile ''/sys/fs/cgroup/cpu/cpu.cfs_quota_us'']\<rparr>)"
  "getCpuPeriod V1 tick_no_cpu_line s =
     (Inr (Num 100000),
      s\<lparr>fs_calls := fs_calls s @ [ReadFile ''/sys/fs/cgroup/cpu/cpu.cfs_period_us'']\<rparr>)"
  "getContainerCpuUsage V1 tick_no_cpu_line s =
     (Inr (Num 3000000000),
      s\<lparr>fs_calls := fs_calls s @ [ReadFile ''/sys/fs/cgroup/cpuacct/cpuacct.usage'']\<rparr>)"
  "getSystemCpuUsage tick_no_cpu_line s =
     (Inl NoCpuLine, s\<lparr>fs_calls := fs_calls s @ [ReadFile ''/proc/stat'']\<rparr>)"
  by (simp_all add: reader_defs tick_no_cpu_line_def cgroup_v1_host_def js_string_defs
      js_number_defs)

lemma tick_no_cpu_line_call:
  assumes "cgroupsVersion s = Some V1"
  shows "getCpuInfo tick_no_cpu_line s =
     (Inl NoCpuLine,
      s\<lparr>fs_calls := fs_calls s @
         [ReadFile ''/sys/fs/cgroup/cpu/cpu.cfs_quota_us'',
          ReadFile ''/sys/fs/cgroup/cpu/cpu.cfs_period_us'',
          ReadFile ''/sys/fs/cgroup/cpuacct/cpuacct.usage'',
          ReadFile ''/proc/stat'']\<rparr>)"
proof -
  have e: "\<not> isLambdaEnvironment tick_no_cpu_line"
    "isContainerised tick_no_cpu_line = Inr True"
    by (simp_all add: tick_no_cpu_line_def cgroup_v1_host_env)
  have v: "getCgroupsVersion tick_no_cpu_line s = (V1, s)"
    using assms by (rule getCgroupsVersion_cached)
  show ?thesis
    by (simp add: getCpuInfo_containerised [OF e v] tick_no_cpu_line_readers
        sampleCpuUsage_def)
qed

text \<open>
  C10, as stated, fails. After \<open>tick_a\<close> a call sees a quota of \<open>200000\<close> and a container
  usage of \<open>3 * 10^9\<close>, but a \<open>/proc/stat\<close> without the aggregate line: it goes through the
  branch of the limited quota, fails, and the previous sample is still that of \<open>tick_a\<close>.
\<close>

theorem previousSample_kept_by_failing_call:
  "\<not> isLambdaEnvironment tick_no_cpu_line
   \<and> isContainerised tick_no_cpu_line = Inr True
   \<and> getCgroupsVersion tick_no_cpu_line after_tick_a = (V1, after_tick_a)
   \<and> fst (getCpuQuota V1 tick_no_cpu_line after_tick_a) = Inr (Some (Num 200000))
   \<and> fst (getContainerCpuUsage V1 tick_no_cpu_line after_tick_a) = Inr (Num 3000000000)
   \<and> fst (getCpuInfo tick_no_cpu_line after_tick_a) = Inl NoCpuLine
   \<and> previousSample (snd (getCpuInfo tick_no_cpu_line after_tick_a)) =
       \<lparr>containerUsage = Num 1000000000, systemUsage = Num 4000000000\<rparr>"
proof -
  have c: "cgroupsVersion after_tick_a = Some V1"
    by (simp add: after_tick_a_def)
  have "\<not> isLambdaEnvironment tick_no_cpu_line"
    and "isContainerised tick_no_cpu_line = Inr True"
    by (simp_all add: tick_no_cpu_line_def cgroup_v1_host_env)
  moreover have "getCgroupsVersion tick_no_cpu_line after_tick_a = (V1, after_tick_a)"
    using c by (rule getCgroupsVersion_cached)
  moreover have "previousSample after_tick_a =
      \<lparr>containerUsage = Num 1000000000, systemUsage = Num 4000000000\<rparr>"
    by (simp add: after_tick_a_def)
  ultimately show ?thesis
    by (simp add: tick_no_cpu_line_call [OF c] tick_no_cpu_line_readers)
qed

theorem previousSample_frame_witness:
  "none_samples [unlimited_v1, bare_metal, lambda_host, tick_no_cpu_line] after_tick_a
   \<and> previousSample (run [unlimited_v1, bare_metal, lambda_host, tick_no_cpu_line] after_tick_a) =
       \<lparr>containerUsage = Num 1000000000, systemUsage = Num 4000000000\<rparr>
   \<and> fst (getCpuInfo tick_b
           (run [unlimited_v1, bare_metal, lambda_host, tick_no_cpu_line] after_tick_a)) =
       Inr (Num ((3000000000 - 1000000000) / (8000000000 - 4000000000) * 4 * 100 / 2))
   \<and> samples tick_a initial_state
   \<and> previousSample (snd (getCpuInfo tick_a initial_state)) =
       \<lparr>containerUsage = Num 1000000000, systemUsage = Num 4000000000\<rparr>
   \<and> none_samples [bare_metal, lambda_host] initial_state
   \<and> previousSample (run [bare_metal, lambda_host] initial_state) =
       \<lparr>containerUsage = Num 0, systemUsage = Num 0\<rparr>"
proof -
  let ?ws = "[unlimited_v1, bare_metal, lambda_host, tick_no_cpu_line]"
  let ?s1 = "after_tick_a\<lparr>fs_calls := fs_calls after_tick_a @
               [ReadFile ''/sys/fs/cgroup/cpu/cpu.cfs_quota_us'']\<rparr>"
  have c0: "cgroupsVersion after_tick_a = Some V1" and c1: "cgroupsVersion ?s1 = Some V1"
    and p0: "previousSample after_tick_a =
      \<lparr>containerUsage = Num 1000000000, systemUsage = Num 4000000000\<rparr>"
    and i0: "previousSample initial_state = \<lparr>containerUsage = Num 0, systemUsage = Num 0\<rparr>"
    by (simp_all add: after_tick_a_def initial_state_def)
  have n4: "\<not> samples tick_no_cpu_line ?s1"
    by (simp add: samples_def tick_no_cpu_line_call [OF c1])
  have ns: "none_samples ?ws after_tick_a"
    by (simp add: unlimited_v1_call [OF c0] host_calls n4)
  have ns0: "none_samples [bare_metal, lambda_host] initial_state"
    by (simp add: host_calls)
  have ea: "\<not> isLambdaEnvironment tick_a" "isContainerised tick_a = Inr True"
    and va: "getCgroupsVersion tick_a initial_state =
      (V1, initial_state\<lparr>cgroupsVersion := Some V1,
             fs_calls := [Access ''/sys/fs/cgroup/memory/'']\<rparr>)"
    by (simp_all add: tick_a_def cgroup_v1_host_env initial_version_v1)
  have sa: "samples tick_a initial_state"
    by (simp add: samples_def ea va tick_a_readers tick_a_first_call)
  have e: "\<not> isLambdaEnvironment tick_b" "isContainerised tick_b = Inr True"
    and n: "length (cpus tick_b) = 4"
    by (simp_all add: tick_b_def cgroup_v1_host_env)
  have "cgroupsVersion (run ?ws after_tick_a) = Some V1"
    by (simp add: unlimited_v1_call [OF c0] host_calls tick_no_cpu_line_call [OF c1])
      (simp add: after_tick_a_def)
  then have v: "getCgroupsVersion tick_b (run ?ws after_tick_a) = (V1, run ?ws after_tick_a)"
    by (rule getCgroupsVersion_cached)
  note first = previousSample_frame [of tick_a initial_state]
  note mid = previousSample_frame [of unlimited_v1 after_tick_a]
  note start = previousSample_frame [of bare_metal initial_state]
  note d = mid [THEN conjunct2, THEN conjunct2, THEN conjunct2, THEN conjunct2, rule_format,
      of ?ws tick_b V1 "run ?ws after_tick_a" "Num 200000" "Num 100000"
        "\<lparr>containerUsage = Num 3000000000, systemUsage = Num 8000000000\<rparr>"]
  from d ns e v have later: "fst (getCpuInfo tick_b (run ?ws after_tick_a)) =
       Inr (Num ((3000000000 - 1000000000) / (8000000000 - 4000000000) * 4 * 100 / 2))"
    by (simp add: tick_b_readers p0 n js_sub_def del: run.simps none_samples.simps)
  from mid [THEN conjunct2, THEN conjunct2, THEN conjunct2, THEN conjunct1, rule_format, OF ns]
  have kept: "previousSample (run ?ws after_tick_a) =
       \<lparr>containerUsage = Num 1000000000, systemUsage = Num 4000000000\<rparr>"
    by (simp add: p0 del: run.simps)
  from start [THEN conjunct2, THEN conjunct2, THEN conjunct2, THEN conjunct1, rule_format,
      OF ns0]
  have zero: "previousSample (run [bare_metal, lambda_host] initial_state) =
       \<lparr>containerUsage = Num 0, systemUsage = Num 0\<rparr>"
    by (simp add: i0 del: run.simps)
  from first [THEN conjunct1, rule_format, OF sa]
  have stored: "previousSample (snd (getCpuInfo tick_a initial_state)) =
       \<lparr>containerUsage = Num 1000000000, systemUsage = Num 4000000000\<rparr>"
    by (simp add: va tick_a_readers)
  from ns kept later sa stored ns0 zero show ?thesis
    by (intro conjI)
qed

section \<open>The memoized version\<close>

lemma getCpuInfo_keeps_version:
  assumes "cgroupsVersion s = Some v"
  shows "cgroupsVersion (snd (getCpuInfo w s)) = Some v"
proof (cases "isLambdaEnvironment w \<or> isContainerised w \<noteq> Inr True")
  case True
  with assms show ?thesis
    by (simp add: getCpuInfo_other_branches)
next
  case False
  then have e: "\<not> isLambdaEnvironment w" "isContainerised w = Inr True"
    by simp_all
  have c: "getCgroupsVersion w s = (v, s)"
    using assms by (rule getCgroupsVersion_cached)
  obtain r2 s2 where q: "getCpuQuota v w s = (r2, s2)"
    by (cases "getCpuQuota v w s")
  obtain r3 s3 where p: "getCpuPeriod v w s2 = (r3, s3)"
    by (cases "getCpuPeriod v w s2")
  obtain r4 s4 where u: "sampleCpuUsage v w s3 = (r4, s4)"
    by (cases "sampleCpuUsage v w s3")
  have "cgroupsVersion s2 = cgroupsVersion s"
    using getCpuQuota_state [of v w s] q by simp
  moreover have "cgroupsVersion s3 = cgroupsVersion s2"
    using getCpuPeriod_state [of v w s2] p by simp
  moreover have "cgroupsVersion s4 = cgroupsVersion s3"
    using sampleCpuUsage_state [of v w s3] u by simp
  ultimately show ?thesis
    using assms
    by (simp add: getCpuInfo_containerised [OF e c] q p u split: sum.splits option.splits)
qed

lemma run_keeps_version:
  "cgroupsVersion s = Some v \<Longrightarrow> cgroupsVersion (run ws s) = Some v"
  by (induction ws arbitrary: s) (simp_all add: getCpuInfo_keeps_version)

text \<open>
  C6. A first call of \<open>getCgroupsVersion\<close> (the cache is undefined) probes the V1 memory
  path once; it returns V1 exactly when that access succeeds and V2 when it fails, whatever
  the reason. The result is stored: a call in the state reached, in any state that holds
  the same cache, and in particular after any number of calls of \<open>getCpuInfo\<close>, returns the
  same version and leaves the state as it is, so that no file-system call is added.
\<close>

theorem getCgroupsVersion_memoized:
  assumes "cgroupsVersion s = None"
    and "getCgroupsVersion w s = (v, s')"
  shows "(v = V1 \<longleftrightarrow> access_failure w ''/sys/fs/cgroup/memory/'' = None)
       \<and> (v = V2 \<longleftrightarrow> (\<exists>e. access_failure w ''/sys/fs/cgroup/memory/'' = Some e))
       \<and> fs_calls s' = fs_calls s @ [Access ''/sys/fs/cgroup/memory/'']
       \<and> cgroupsVersion s' = Some v
       \<and> (\<forall>w'. getCgroupsVersion w' s' = (v, s'))
       \<and> (\<forall>w' t. cgroupsVersion t = Some v \<longrightarrow> getCgroupsVersion w' t = (v, t))
       \<and> (\<forall>w' ws. getCgroupsVersion w' (run ws s') = (v, run ws s'))"
proof -
  let ?probe = "access_failure w ''/sys/fs/cgroup/memory/''"
  from assms(1) have first: "getCgroupsVersion w s =
     (case ?probe of None \<Rightarrow> V1 | Some e \<Rightarrow> V2,
      s\<lparr>cgroupsVersion := Some (case ?probe of None \<Rightarrow> V1 | Some e \<Rightarrow> V2),
        fs_calls := fs_calls s @ [Access ''/sys/fs/cgroup/memory/'']\<rparr>)"
    by (rule getCgroupsVersion_first)
  with assms(2) have v: "v = (case ?probe of None \<Rightarrow> V1 | Some e \<Rightarrow> V2)"
    and s': "s' = s\<lparr>cgroupsVersion := Some v,
                    fs_calls := fs_calls s @ [Access ''/sys/fs/cgroup/memory/'']\<rparr>"
    by auto
  from v have "v = V1 \<longleftrightarrow> ?probe = None" and "v = V2 \<longleftrightarrow> (\<exists>e. ?probe = Some e)"
    by (simp_all split: option.splits)
  moreover from s' have "fs_calls s' = fs_calls s @ [Access ''/sys/fs/cgroup/memory/'']"
    and cached: "cgroupsVersion s' = Some v"
    by simp_all
  moreover have "\<forall>w' t. cgroupsVersion t = Some v \<longrightarrow> getCgroupsVersion w' t = (v, t)"
    by (simp add: getCgroupsVersion_cached)
  moreover from cached have "\<forall>w'. getCgroupsVersion w' s' = (v, s')"
    by (simp add: getCgroupsVersion_cached)
  moreover from cached have "\<forall>w' ws. getCgroupsVersion w' (run ws s') = (v, run ws s')"
    by (simp add: getCgroupsVersion_cached run_keeps_version)
  ultimately show ?thesis by blast
qed

theorem getCgroupsVersion_memoized_witness:
  "cgroupsVersion initial_state = None
   \<and> access_failure bare_metal ''/sys/fs/cgroup/memory/'' = None
   \<and> getCgroupsVersion bare_metal initial_state =
       (V1, initial_state\<lparr>cgroupsVersion := Some V1,
              fs_calls := [Access ''/sys/fs/cgroup/memory/'']\<rparr>)
   \<and> getCgroupsVersion unlimited_v2
         (initial_state\<lparr>cgroupsVersion := Some V1,
            fs_calls := [Access ''/sys/fs/cgroup/memory/'']\<rparr>) =
       (V1, initial_state\<lparr>cgroupsVersion := Some V1,
              fs_calls := [Access ''/sys/fs/cgroup/memory/'']\<rparr>)
   \<and> access_failure unlimited_v2 ''/sys/fs/cgroup/memory/'' = Some (AccessError ''ENOENT'')
   \<and> fst (getCgroupsVersion unlimited_v2 initial_state) = V2
   \<and> fst (getCgroupsVersion bare_metal
           (run [unlimited_v2, tick_a] (snd (getCgroupsVersion unlimited_v2 initial_state)))) = V2"
proof -
  let ?s1 = "initial_state\<lparr>cgroupsVersion := Some V1,
               fs_calls := [Access ''/sys/fs/cgroup/memory/'']\<rparr>"
  let ?s2 = "initial_state\<lparr>cgroupsVersion := Some V2,
               fs_calls := [Access ''/sys/fs/cgroup/memory/'']\<rparr>"
  have h1: "cgroupsVersion initial_state = None"
    by (simp add: initial_state_def)
  have a1: "access_failure bare_metal ''/sys/fs/cgroup/memory/'' = None"
    by (simp add: bare_metal_def)
  have a2: "access_failure unlimited_v2 ''/sys/fs/cgroup/memory/'' = Some (AccessError ''ENOENT'')"
    by (simp add: unlimited_v2_def cgroup_v2_host_env)
  have h2: "getCgroupsVersion bare_metal initial_state = (V1, ?s1)"
    by (simp add: getCgroupsVersion_def access_def a1 initial_state_def)
  have h3: "getCgroupsVersion unlimited_v2 initial_state = (V2, ?s2)"
    by (simp add: unlimited_v2_def initial_version_v2)
  from getCgroupsVersion_memoized [OF h1 h2] getCgroupsVersion_memoized [OF h1 h3] h1 a1 a2 h2 h3
  show ?thesis
    by (simp del: run.simps)
qed

end
